theory Spec2Isabelle
  imports Complex_Main "HOL-Library.AList" "HOL-Library.Multiset" "HOL-Library.Sublist"
begin

section \<open>Tab Whisperer: the background worker of \<^verbatim>\<open>src/background.js\<close>\<close>

text \<open>
  The worker enumerates the browser's tabs, summarises each one, groups the summaries
  and stores the grouping. A value that may be \<^verbatim>\<open>undefined\<close> or \<^verbatim>\<open>null\<close> is an
  \<^typ>\<open>'a option\<close>; a call that may throw (every one of them sits in a \<^verbatim>\<open>try\<close> block of
  the source) returns an \<open>outcome\<close>. The browser, the on-device models, \<^verbatim>\<open>JSON.parse\<close>,
  \<^verbatim>\<open>String.prototype.toLowerCase\<close> and the clock are collaborators the worker does not
  own: they are parameters of the model.
  \<^item> A capability is the function from the text it is given to what it answers; the
    theorems hold for every such function.
  \<^item> A summary record has the fields and the types \<^verbatim>\<open>processTabsAndStore\<close>, the one
    caller of \<^verbatim>\<open>groupSummaries\<close>, gives it; the reply of the prompting capability is any
    parsed JSON value.
  \<^item> \<^verbatim>\<open>chrome.storage.local\<close> is a store of two keys whose reads and writes succeed; one
    command runs at a time.
\<close>

subsection \<open>Strings\<close>

text \<open>
  A string is the list of its UTF-16 code units, as \<^verbatim>\<open>length\<close>, \<^verbatim>\<open>slice\<close> and \<^verbatim>\<open>===\<close> see
  it; a code unit is a number below 65536. \<open>js\<close> turns the ASCII text of a literal of
  the source into its code units.
\<close>

type_synonym jsstring = "nat list"

definition js :: "string \<Rightarrow> jsstring" where
  "js s = map of_char s"

definition startsWith :: "'a list \<Rightarrow> 'a list \<Rightarrow> bool" where
  "startsWith s p = (take (length p) s = p)"

definition endsWith :: "'a list \<Rightarrow> 'a list \<Rightarrow> bool" where
  "endsWith s p = (length p \<le> length s \<and> drop (length s - length p) s = p)"

text \<open>\<open>hasSubstring s kw\<close>: \<open>kw\<close> occurs in \<open>s\<close> as a contiguous substring.\<close>

fun hasSubstring :: "'a list \<Rightarrow> 'a list \<Rightarrow> bool" where
  "hasSubstring [] kw = (kw = [])"
| "hasSubstring (c # cs) kw = (startsWith (c # cs) kw \<or> hasSubstring cs kw)"

text \<open>
  A regular expression of the form \<^verbatim>\<open>/(k1|k2|...)/\<close> tested against a text: some
  alternative occurs in the text.
\<close>

definition regexTest :: "jsstring list \<Rightarrow> jsstring \<Rightarrow> bool" where
  "regexTest alternatives text = list_ex (hasSubstring text) alternatives"

text \<open>
  \<^verbatim>\<open>String.prototype.trim\<close> removes, at both ends, the white space and the line
  terminators of the language: TAB, LF, VT, FF, CR, SPACE, NO-BREAK SPACE, U+1680,
  U+2000 to U+200A, U+2028, U+2029, U+202F, U+205F, U+3000 and U+FEFF.
\<close>

definition isSpace :: "nat \<Rightarrow> bool" where
  "isSpace u =
     (u \<in> set [0x09, 0x0A, 0x0B, 0x0C, 0x0D, 0x20, 0xA0, 0x1680, 0x2028, 0x2029, 0x202F,
                0x205F, 0x3000, 0xFEFF] \<or>
      (0x2000 \<le> u \<and> u \<le> 0x200A))"

definition trim :: "jsstring \<Rightarrow> jsstring" where
  "trim s = rev (dropWhile isSpace (rev (dropWhile isSpace s)))"

subsection \<open>Summary records and groups\<close>

text \<open>
  The record \<^verbatim>\<open>processTabsAndStore\<close> pushes for each tab (lines 186-193). \<open>tabId\<close> is the
  tab's id, a number; \<open>windowId\<close> is copied from the tab and may be undefined.
\<close>

record summary_rec =
  tabId :: int
  windowId :: "int option"
  url :: jsstring
  title :: jsstring
  favIconUrl :: jsstring
  summary :: jsstring

subsection \<open>The heuristic grouping\<close>

text \<open>
  Lines 157-167 of \<^verbatim>\<open>groupSummaries\<close>, which are also, word for word, the body of
  \<^verbatim>\<open>groupSummariesMock\<close> (lines 275-296): five buckets, each item pushed to the bucket of
  the first regular expression that \<^verbatim>\<open>`${item.title} ${item.summary}`.toLowerCase()\<close>
  matches, and the non-empty buckets returned in the order the object literal lists
  them. \<open>lower\<close> is \<^verbatim>\<open>toLowerCase\<close>.
\<close>

record buckets =
  Research :: "summary_rec list"
  Shopping :: "summary_rec list"
  Entertainment :: "summary_rec list"
  Work :: "summary_rec list"
  Other :: "summary_rec list"

definition emptyBuckets :: buckets where
  "emptyBuckets = \<lparr>Research = [], Shopping = [], Entertainment = [], Work = [], Other = []\<rparr>"

definition researchWords :: "jsstring list" where
  "researchWords = map js [''paper'', ''research'', ''arxiv'', ''wiki'', ''docs'', ''guide'']"

definition shoppingWords :: "jsstring list" where
  "shoppingWords =
     map js [''amazon'', ''ebay'', ''shop'', ''price'', ''deal'', ''buy'', ''cart'']"

definition entertainmentWords :: "jsstring list" where
  "entertainmentWords =
     map js [''youtube'', ''netflix'', ''spotify'', ''game'', ''movie'', ''music'']"

definition workWords :: "jsstring list" where
  "workWords =
     map js [''jira'', ''github'', ''gitlab'', ''slack'', ''notion'', ''figma'', ''drive'']"

definition itemText :: "(jsstring \<Rightarrow> jsstring) \<Rightarrow> summary_rec \<Rightarrow> jsstring" where
  "itemText lower item = lower (title item @ js '' '' @ summary item)"

definition pushItem :: "(jsstring \<Rightarrow> jsstring) \<Rightarrow> buckets \<Rightarrow> summary_rec \<Rightarrow> buckets" where
  "pushItem lower groups item =
     (let text = itemText lower item in
      if regexTest researchWords text then groups\<lparr>Research := Research groups @ [item]\<rparr>
      else if regexTest shoppingWords text then groups\<lparr>Shopping := Shopping groups @ [item]\<rparr>
      else if regexTest entertainmentWords text
        then groups\<lparr>Entertainment := Entertainment groups @ [item]\<rparr>
      else if regexTest workWords text then groups\<lparr>Work := Work groups @ [item]\<rparr>
      else groups\<lparr>Other := Other groups @ [item]\<rparr>)"

definition bucketEntries :: "buckets \<Rightarrow> (jsstring \<times> summary_rec list) list" where
  "bucketEntries groups =
     [(js ''Research'', Research groups), (js ''Shopping'', Shopping groups),
      (js ''Entertainment'', Entertainment groups), (js ''Work'', Work groups),
      (js ''Other'', Other groups)]"

definition heuristicGroups ::
  "(jsstring \<Rightarrow> jsstring) \<Rightarrow> summary_rec list \<Rightarrow> (jsstring \<times> summary_rec list) list" where
  "heuristicGroups lower summaries =
     filter (\<lambda>(k, v). v \<noteq> [])
       (bucketEntries (foldl (pushItem lower) emptyBuckets summaries))"

definition groupSummariesMock ::
  "(jsstring \<Rightarrow> jsstring) \<Rightarrow> summary_rec list \<Rightarrow> (jsstring \<times> summary_rec list) list" where
  "groupSummariesMock lower summaries = heuristicGroups lower summaries"

subsection \<open>Values the collaborators hand back\<close>

text \<open>The result of a call inside a \<^verbatim>\<open>try\<close> block: it threw, or it returned a value.\<close>

datatype 'a outcome = Threw | Returned 'a

text \<open>
  What \<^verbatim>\<open>JSON.parse\<close> returns. An object lists its own properties in the order
  \<^verbatim>\<open>Object.entries\<close> enumerates them; a number is its value, so that \<open>0\<close> and
  \<open>-0\<close> are the same number, as they are for \<^verbatim>\<open>===\<close> and for truthiness.
\<close>

datatype json =
  JNull
| JBool bool
| JNum rat
| JStr jsstring
| JArr "json list"
| JObj "(jsstring \<times> json) list"

fun truthy :: "json \<Rightarrow> bool" where
  "truthy JNull = False"
| "truthy (JBool b) = b"
| "truthy (JNum n) = (n \<noteq> 0)"
| "truthy (JStr s) = (s \<noteq> [])"
| "truthy (JArr xs) = True"
| "truthy (JObj kvs) = True"

text \<open>
  Reading one of the properties \<^verbatim>\<open>groups\<close>, \<^verbatim>\<open>url\<close>, \<^verbatim>\<open>title\<close>, \<^verbatim>\<open>summary\<close> of a parsed
  value: on \<^verbatim>\<open>null\<close> the read throws a TypeError; an object answers with its own
  property; every other value (no prototype defines one of these four names) answers
  \<^verbatim>\<open>undefined\<close>, which is \<open>None\<close>.
\<close>

fun getProp :: "json \<Rightarrow> jsstring \<Rightarrow> json option outcome" where
  "getProp JNull k = Threw"
| "getProp (JObj kvs) k = Returned (map_of kvs k)"
| "getProp v k = Returned None"

text \<open>\<^verbatim>\<open>x || ''\<close> for a property read \<open>x\<close>.\<close>

fun orEmpty :: "json option \<Rightarrow> json" where
  "orEmpty None = JStr []"
| "orEmpty (Some v) = (if truthy v then v else JStr [])"

text \<open>
  A number that is an integer, as a template literal or a property key prints it; the
  code unit of the digit \<open>d\<close> is \<open>48 + d\<close>, and 45 is the minus sign.
\<close>

fun digits :: "nat \<Rightarrow> jsstring" where
  "digits n = (if n < 10 then [48 + n] else digits (n div 10) @ [48 + n mod 10])"

declare digits.simps [simp del]

definition numberToString :: "int \<Rightarrow> jsstring" where
  "numberToString n = (if n < 0 then 45 # digits (nat (- n)) else digits (nat n))"

text \<open>
  \<^verbatim>\<open>Object.entries\<close> of a value for which \<^verbatim>\<open>typeof\<close> says \<^verbatim>\<open>'object'\<close> and that is truthy:
  an object's properties, or an array's elements under their indices.
\<close>

fun objectEntries :: "json \<Rightarrow> (jsstring \<times> json) list option" where
  "objectEntries (JObj kvs) = Some kvs"
| "objectEntries (JArr xs) = Some (zip (map (\<lambda>i. numberToString (int i)) [0..<length xs]) xs)"
| "objectEntries v = None"

text \<open>
  What the prompting capability resolves to, as far as the worker looks at it: a string;
  a value that is not a string and whose \<^verbatim>\<open>output\<close> is truthy, with the text
  \<^verbatim>\<open>String(raw.output)\<close>; or anything else.
\<close>

datatype lm_raw = RawString jsstring | RawOutput jsstring | RawOther

text \<open>The capability is its \<^verbatim>\<open>prompt\<close> method: the prompt text in, a reply or a throw out.\<close>

type_synonym language_model = "jsstring \<Rightarrow> lm_raw outcome"

subsection \<open>The prompt of the grouping step\<close>

text \<open>
  \<^verbatim>\<open>JSON.stringify\<close> of a string: quotes, backslashes and control characters are escaped,
  a surrogate pair is copied, and a surrogate without its partner is written as
  \<^verbatim>\<open>\uXXXX\<close>.
\<close>

definition hexDigit :: "nat \<Rightarrow> nat" where
  "hexDigit n = js ''0123456789abcdef'' ! n"

definition unicodeEscape :: "nat \<Rightarrow> jsstring" where
  "unicodeEscape u =
     [0x5C, 0x75, hexDigit (u div 4096 mod 16), hexDigit (u div 256 mod 16),
      hexDigit (u div 16 mod 16), hexDigit (u mod 16)]"

definition isHighSurrogate :: "nat \<Rightarrow> bool" where
  "isHighSurrogate u = (0xD800 \<le> u \<and> u \<le> 0xDBFF)"

definition isLowSurrogate :: "nat \<Rightarrow> bool" where
  "isLowSurrogate u = (0xDC00 \<le> u \<and> u \<le> 0xDFFF)"

definition quoteJSONUnit :: "nat \<Rightarrow> jsstring" where
  "quoteJSONUnit u =
     (if u = 0x22 then [0x5C, 0x22]
      else if u = 0x5C then [0x5C, 0x5C]
      else if u = 0x08 then [0x5C, 0x62]
      else if u = 0x09 then [0x5C, 0x74]
      else if u = 0x0A then [0x5C, 0x6E]
      else if u = 0x0C then [0x5C, 0x66]
      else if u = 0x0D then [0x5C, 0x72]
      else if u < 0x20 \<or> isHighSurrogate u \<or> isLowSurrogate u then unicodeEscape u
      else [u])"

fun quoteJSONUnits :: "jsstring \<Rightarrow> jsstring" where
  "quoteJSONUnits [] = []"
| "quoteJSONUnits [u] = quoteJSONUnit u"
| "quoteJSONUnits (u # v # vs) =
     (if isHighSurrogate u \<and> isLowSurrogate v then u # v # quoteJSONUnits vs
      else quoteJSONUnit u @ quoteJSONUnits (v # vs))"

definition quoteJSONString :: "jsstring \<Rightarrow> jsstring" where
  "quoteJSONString s = [0x22] @ quoteJSONUnits s @ [0x22]"

fun joinWith :: "jsstring \<Rightarrow> jsstring list \<Rightarrow> jsstring" where
  "joinWith sep [] = []"
| "joinWith sep [x] = x"
| "joinWith sep (x # y # ys) = x @ sep @ joinWith sep (y # ys)"

text \<open>One element of \<^verbatim>\<open>items\<close> (lines 119-123), as \<^verbatim>\<open>JSON.stringify\<close> prints it.\<close>

definition stringifyItem :: "summary_rec \<Rightarrow> jsstring" where
  "stringifyItem s =
     js ''{'' @ quoteJSONString (js ''title'') @ js '':'' @ quoteJSONString (title s) @
     js '','' @ quoteJSONString (js ''summary'') @ js '':'' @
     quoteJSONString (take 400 (summary s)) @
     js '','' @ quoteJSONString (js ''url'') @ js '':'' @ quoteJSONString (url s) @ js ''}''"

definition instruction :: jsstring where
  \<open>instruction = joinWith (js '' '')
     [js ''You are organizing browser tabs into human-friendly categories like Research, Shopping, Entertainment, Work, etc.'',
      js ''Return ONLY compact JSON with this shape: {"groups": {"Category": [{"title": string, "summary": string, "url": string}]}}'',
      js ''No explanations or markdown. Ensure valid JSON and avoid code fences.'']\<close>

definition groupPrompt :: "summary_rec list \<Rightarrow> jsstring" where
  "groupPrompt summaries =
     instruction @ [0x0A] @ js ''Tabs:'' @ [0x0A] @
     js ''['' @ joinWith (js '','') (map stringifyItem summaries) @ js '']''"

text \<open>Line 131: the text of the reply.\<close>

fun rawText :: "lm_raw \<Rightarrow> jsstring" where
  "rawText (RawString s) = s"
| "rawText (RawOutput s) = s"
| "rawText RawOther = []"

text \<open>
  Line 132, \<^verbatim>\<open>text.replace(/^```(?:json)?|```$/g, '')\<close>: an opening fence at the very start,
  with the word \<^verbatim>\<open>json\<close> when it follows, is removed, and so is a closing fence at the
  very end of what is left.
\<close>

definition fence :: jsstring where
  "fence = [0x60, 0x60, 0x60]"

definition stripFences :: "jsstring \<Rightarrow> jsstring" where
  "stripFences text =
     (let rest = (if startsWith text fence
                  then (let r = drop 3 text in if startsWith r (js ''json'') then drop 4 r else r)
                  else text)
      in if endsWith rest fence then take (length rest - 3) rest else rest)"

subsection \<open>The grouping step\<close>

text \<open>
  An element of a group that \<^verbatim>\<open>groupSummaries\<close> returns is \<^verbatim>\<open>match || {...}\<close> (lines
  141-148): the input record that \<^verbatim>\<open>find\<close> returned, or the object literal
  \<^verbatim>\<open>{tabId: null, url: item.url || '', title: item.title || '', favIconUrl: '',
  summary: item.summary || ''}\<close>, given here by its \<open>url\<close>, \<open>title\<close> and \<open>summary\<close>.
\<close>

datatype group_item = Original summary_rec | Placeholder json json json

fun itemTabId :: "group_item \<Rightarrow> int option" where
  "itemTabId (Original s) = Some (tabId s)"
| "itemTabId (Placeholder u t sm) = None"

fun itemUrl :: "group_item \<Rightarrow> json" where
  "itemUrl (Original s) = JStr (url s)"
| "itemUrl (Placeholder u t sm) = u"

fun itemTitle :: "group_item \<Rightarrow> json" where
  "itemTitle (Original s) = JStr (title s)"
| "itemTitle (Placeholder u t sm) = t"

fun itemFavIconUrl :: "group_item \<Rightarrow> jsstring" where
  "itemFavIconUrl (Original s) = favIconUrl s"
| "itemFavIconUrl (Placeholder u t sm) = []"

type_synonym groups = "(jsstring \<times> group_item list) list"

text \<open>
  The callback of \<^verbatim>\<open>find\<close> (line 141): \<^verbatim>\<open>s.url === item.url || s.title === item.title\<close>,
  the two properties of the item already read. A string is strictly equal to a parsed
  value only when that value is the same string.
\<close>

definition matchesItem :: "json option \<Rightarrow> json option \<Rightarrow> summary_rec \<Rightarrow> bool" where
  "matchesItem u t s = (u = Some (JStr (url s)) \<or> t = Some (JStr (title s)))"

text \<open>
  The callback of \<^verbatim>\<open>v.map\<close> (lines 140-149). Reading a property of \<^verbatim>\<open>null\<close> throws,
  in \<^verbatim>\<open>find\<close> or, with no summaries, in the object literal.
\<close>

definition relink :: "summary_rec list \<Rightarrow> json \<Rightarrow> group_item outcome" where
  "relink summaries item =
     (case (getProp item (js ''url''), getProp item (js ''title''),
            getProp item (js ''summary'')) of
        (Returned u, Returned t, Returned sm) \<Rightarrow>
          Returned (case find (matchesItem u t) summaries of
                      Some match \<Rightarrow> Original match
                    | None \<Rightarrow> Placeholder (orEmpty u) (orEmpty t) (orEmpty sm))
      | _ \<Rightarrow> Threw)"

fun mapItems :: "summary_rec list \<Rightarrow> json list \<Rightarrow> group_item list outcome" where
  "mapItems summaries [] = Returned []"
| "mapItems summaries (item # items) =
     (case relink summaries item of
        Threw \<Rightarrow> Threw
      | Returned r \<Rightarrow>
          (case mapItems summaries items of
             Threw \<Rightarrow> Threw
           | Returned rs \<Rightarrow> Returned (r # rs)))"

text \<open>
  \<^verbatim>\<open>cleaned[k] = ...\<close> (line 140) on an object created by \<^verbatim>\<open>{}\<close>: the key becomes an own
  property, or keeps its place when it is one already. The key \<^verbatim>\<open>__proto__\<close> is the
  exception: the assignment reaches the setter of \<^verbatim>\<open>Object.prototype\<close>, which replaces
  the prototype and adds no own property.
\<close>

definition assignKey :: "jsstring \<Rightarrow> group_item list \<Rightarrow> groups \<Rightarrow> groups" where
  "assignKey k v cleaned =
     (if k = js ''__proto__'' then cleaned else AList.update k v cleaned)"

text \<open>The loop of lines 137-151 over \<^verbatim>\<open>Object.entries(parsed.groups)\<close>.\<close>

fun cleanEntries ::
  "summary_rec list \<Rightarrow> (jsstring \<times> json) list \<Rightarrow> groups \<Rightarrow> groups outcome" where
  "cleanEntries summaries [] cleaned = Returned cleaned"
| "cleanEntries summaries ((k, JArr v) # es) cleaned =
     (case mapItems summaries v of
        Threw \<Rightarrow> Threw
      | Returned items \<Rightarrow> cleanEntries summaries es (assignKey k items cleaned))"
| "cleanEntries summaries ((k, v) # es) cleaned = cleanEntries summaries es cleaned"

text \<open>
  Lines 134-153, from the parsed reply on: \<open>Some cleaned\<close> when line 152 returns,
  \<open>None\<close> when control leaves the block for the heuristic, by a failed test or by a
  throw that line 154 catches.
\<close>

definition cleanParsed :: "summary_rec list \<Rightarrow> json \<Rightarrow> groups option" where
  "cleanParsed summaries parsed =
     (if truthy parsed then
        (case getProp parsed (js ''groups'') of
           Returned (Some g) \<Rightarrow>
             (if truthy g then
                (case objectEntries g of
                   Some entries \<Rightarrow>
                     (case cleanEntries summaries entries [] of
                        Returned cleaned \<Rightarrow> if cleaned \<noteq> [] then Some cleaned else None
                      | Threw \<Rightarrow> None)
                 | None \<Rightarrow> None)
              else None)
         | _ \<Rightarrow> None)
      else None)"

text \<open>
  Lines 117-155. \<open>parse\<close> is \<^verbatim>\<open>JSON.parse\<close>: \<open>None\<close> when it throws a SyntaxError.
\<close>

definition aiGroups ::
  "(jsstring \<Rightarrow> json option) \<Rightarrow> summary_rec list \<Rightarrow> language_model option \<Rightarrow>
   groups option" where
  "aiGroups parse summaries languageModel =
     (case languageModel of
        None \<Rightarrow> None
      | Some lm \<Rightarrow>
          (if summaries = [] then None
           else
             (case lm (groupPrompt summaries) of
                Threw \<Rightarrow> None
              | Returned raw \<Rightarrow>
                  (case parse (stripFences (rawText raw)) of
                     None \<Rightarrow> None
                   | Some parsed \<Rightarrow> cleanParsed summaries parsed))))"

text \<open>
  \<^verbatim>\<open>groupSummaries\<close> (lines 116-168), given \<^verbatim>\<open>JSON.parse\<close> and \<^verbatim>\<open>toLowerCase\<close>.
\<close>

definition groupSummaries ::
  "(jsstring \<Rightarrow> json option) \<Rightarrow> (jsstring \<Rightarrow> jsstring) \<Rightarrow> summary_rec list \<Rightarrow>
   language_model option \<Rightarrow> groups" where
  "groupSummaries parse lower summaries languageModel =
     (case aiGroups parse summaries languageModel of
        Some cleaned \<Rightarrow> cleaned
      | None \<Rightarrow> map (\<lambda>(k, v). (k, map Original v)) (heuristicGroups lower summaries))"

subsection \<open>The summarization step\<close>

text \<open>A tab as \<^verbatim>\<open>chrome.tabs.query\<close> reports it; every property the worker reads is optional.\<close>

record tab =
  tab_id :: "int option"
  tab_windowId :: "int option"
  tab_url :: "jsstring option"
  tab_pendingUrl :: "jsstring option"
  tab_title :: "jsstring option"
  tab_favIconUrl :: "jsstring option"

text \<open>\<^verbatim>\<open>x || d\<close> for a string \<open>x\<close> that may be undefined: the empty string is falsy too.\<close>

fun orString :: "jsstring option \<Rightarrow> jsstring \<Rightarrow> jsstring" where
  "orString None d = d"
| "orString (Some s) d = (if s = [] then d else s)"

text \<open>
  What the summarization capability resolves to, as far as the worker looks at it: a
  string; a value that is not a string, with its \<^verbatim>\<open>summary\<close> property, a string; or
  anything else.
\<close>

datatype sum_raw = SumString jsstring | SumSummary jsstring | SumOther

type_synonym summarizer = "jsstring \<Rightarrow> sum_raw outcome"

text \<open>
  \<^verbatim>\<open>chrome.scripting.executeScript\<close> on a tab id: it throws, or the first injection
  result holds the page's text, or something that is not a string.
\<close>

type_synonym script_host = "int option \<Rightarrow> jsstring option outcome"

definition fetchTabTextContent :: "script_host \<Rightarrow> int option \<Rightarrow> jsstring" where
  "fetchTabTextContent exec tid =
     (case exec tid of
        Returned (Some result) \<Rightarrow> take 12000 result
      | _ \<Rightarrow> [])"

definition summarizePrompt :: "jsstring \<Rightarrow> jsstring \<Rightarrow> jsstring" where
  \<open>summarizePrompt t content =
     js ''Summarize in one concise sentence for a tab dashboard. Title: "'' @ t @
     js ''". Content:'' @ [0x0A, 0x0A] @ take 6000 content\<close>

text \<open>Lines 90-100: \<open>Some\<close> when one of the two \<^verbatim>\<open>return\<close>s of the block is taken.\<close>

definition summarizerAttempt ::
  "script_host \<Rightarrow> tab \<Rightarrow> jsstring \<Rightarrow> summarizer option \<Rightarrow> jsstring option" where
  "summarizerAttempt exec t ttl sm =
     (case sm of
        None \<Rightarrow> None
      | Some summarize \<Rightarrow>
          (let content = fetchTabTextContent exec (tab_id t) in
           if content \<noteq> [] then
             (case summarize (js ''Title: '' @ ttl @ [0x0A, 0x0A] @ content) of
                Returned (SumString res) \<Rightarrow> Some res
              | Returned (SumSummary res) \<Rightarrow> if res \<noteq> [] then Some res else None
              | _ \<Rightarrow> None)
           else None))"

text \<open>Lines 102-110.\<close>

definition promptAttempt ::
  "script_host \<Rightarrow> tab \<Rightarrow> jsstring \<Rightarrow> language_model option \<Rightarrow> jsstring option" where
  "promptAttempt exec t ttl lm =
     (case lm of
        None \<Rightarrow> None
      | Some prompt \<Rightarrow>
          (let content = fetchTabTextContent exec (tab_id t) in
           case prompt (summarizePrompt ttl content) of
             Returned (RawString res) \<Rightarrow> Some (trim res)
           | Returned (RawOutput res) \<Rightarrow> Some (trim res)
           | _ \<Rightarrow> None))"

definition summarizeTab ::
  "script_host \<Rightarrow> tab \<Rightarrow> summarizer option \<Rightarrow> language_model option \<Rightarrow> jsstring" where
  "summarizeTab exec t sm lm =
     (let ttl = orString (tab_title t) (js ''Untitled'') in
      case summarizerAttempt exec t ttl sm of
        Some res \<Rightarrow> res
      | None \<Rightarrow>
          (case promptAttempt exec t ttl lm of
             Some res \<Rightarrow> res
           | None \<Rightarrow> js ''Summary for '' @ ttl))"

subsection \<open>Creating the capabilities\<close>

text \<open>
  An AI API object: \<open>api_capabilities\<close> is \<open>None\<close> when \<^verbatim>\<open>api.capabilities\<close> is not a
  function, and otherwise the outcome of calling it, read as \<^verbatim>\<open>caps?.available\<close>;
  \<open>api_create\<close> is the outcome of \<^verbatim>\<open>api.create(...)\<close>, \<open>None\<close> for a falsy value.
\<close>

record 'c ai_api =
  api_capabilities :: "jsstring option outcome option"
  api_create :: "'c option outcome"

definition tryCreate :: "'c ai_api option \<Rightarrow> 'c option" where
  "tryCreate api =
     (case api of
        None \<Rightarrow> None
      | Some a \<Rightarrow>
          (case api_capabilities a of
             Some Threw \<Rightarrow> None
           | Some (Returned (Some available)) \<Rightarrow>
               (if available = js ''no'' then None
                else (case api_create a of Threw \<Rightarrow> None | Returned c \<Rightarrow> c))
           | _ \<Rightarrow> (case api_create a of Threw \<Rightarrow> None | Returned c \<Rightarrow> c)))"

text \<open>Everything the worker asks of its surroundings during one command.\<close>

record platform =
  self_ai_summarizer :: "summarizer ai_api option"
  aiOriginTrial_summarizer :: "summarizer ai_api option"
  self_ai_languageModel :: "language_model ai_api option"
  aiOriginTrial_languageModel :: "language_model ai_api option"
  tabs_query :: "tab list"
  executeScript :: script_host
  JSON_parse :: "jsstring \<Rightarrow> json option"
  toLowerCase :: "jsstring \<Rightarrow> jsstring"
  Date_now :: int
  toLocaleString :: jsstring

definition resolveAISummarizerAPI :: "platform \<Rightarrow> summarizer ai_api option" where
  "resolveAISummarizerAPI pf =
     (case self_ai_summarizer pf of
        Some a \<Rightarrow> Some a
      | None \<Rightarrow> aiOriginTrial_summarizer pf)"

definition resolveAILanguageModelAPI :: "platform \<Rightarrow> language_model ai_api option" where
  "resolveAILanguageModelAPI pf =
     (case self_ai_languageModel pf of
        Some a \<Rightarrow> Some a
      | None \<Rightarrow> aiOriginTrial_languageModel pf)"

definition tryCreateSummarizer :: "platform \<Rightarrow> summarizer option" where
  "tryCreateSummarizer pf = tryCreate (resolveAISummarizerAPI pf)"

definition tryCreateLanguageModel :: "platform \<Rightarrow> language_model option" where
  "tryCreateLanguageModel pf = tryCreate (resolveAILanguageModelAPI pf)"

subsection \<open>Processing the tabs and storing the snapshot\<close>

record snapshot =
  generatedAt :: "int option"
  groups :: groups

text \<open>A saved session: \<^verbatim>\<open>{id, name, ...latest}\<close>.\<close>

record session = snapshot +
  id' :: jsstring
  name :: jsstring

text \<open>
  The two keys of \<^verbatim>\<open>chrome.storage.local\<close> that the worker reads and writes; \<open>None\<close>
  is a key that was never set.
\<close>

record storage =
  latestGroups :: "snapshot option"
  savedSessions :: "session list option"

text \<open>Line 184: the tabs the loop skips.\<close>

definition skipped :: "tab \<Rightarrow> bool" where
  "skipped t =
     ((case tab_id t of None \<Rightarrow> True | Some i \<Rightarrow> i = 0) \<or>
      tab_pendingUrl t = Some (js ''chrome://newtab/'') \<or>
      (case tab_url t of None \<Rightarrow> False | Some u \<Rightarrow> startsWith u (js ''chrome://'')))"

text \<open>
  Lines 185-193: the record pushed for a tab that is not skipped. Such a tab has an id,
  which is not 0; the loop does not reach the other branch of \<open>tabId\<close>.
\<close>

definition summaryRecord ::
  "script_host \<Rightarrow> summarizer option \<Rightarrow> language_model option \<Rightarrow> tab \<Rightarrow> summary_rec" where
  "summaryRecord ex sm lm t =
     \<lparr>tabId = (case tab_id t of Some i \<Rightarrow> i | None \<Rightarrow> 0),
      windowId = tab_windowId t,
      url = orString (tab_url t) [],
      title = orString (tab_title t) [],
      favIconUrl = orString (tab_favIconUrl t) [],
      summary = summarizeTab ex t sm lm\<rparr>"

text \<open>The loop of lines 182-194, the list \<^verbatim>\<open>summaries\<close> being the accumulator.\<close>

fun collectSummaries ::
  "script_host \<Rightarrow> summarizer option \<Rightarrow> language_model option \<Rightarrow> tab list \<Rightarrow>
   summary_rec list \<Rightarrow> summary_rec list" where
  "collectSummaries ex sm lm [] summaries = summaries"
| "collectSummaries ex sm lm (t # ts) summaries =
     (if skipped t then collectSummaries ex sm lm ts summaries
      else collectSummaries ex sm lm ts (summaries @ [summaryRecord ex sm lm t]))"

definition processTabsAndStore :: "platform \<Rightarrow> storage \<Rightarrow> snapshot \<times> storage" where
  "processTabsAndStore pf st =
     (let tabs = tabs_query pf;
          sm = tryCreateSummarizer pf;
          lm = tryCreateLanguageModel pf;
          summaries = collectSummaries (executeScript pf) sm lm tabs [];
          grouped = groupSummaries (JSON_parse pf) (toLowerCase pf) summaries lm;
          payload = \<lparr>generatedAt = Some (Date_now pf), groups = grouped\<rparr>
      in (payload, st\<lparr>latestGroups := Some payload\<rparr>))"

definition getLatestGroups :: "storage \<Rightarrow> snapshot" where
  "getLatestGroups st =
     (case latestGroups st of
        Some latest \<Rightarrow> latest
      | None \<Rightarrow> \<lparr>generatedAt = None, groups = []\<rparr>)"

definition saveSession :: "platform \<Rightarrow> jsstring option \<Rightarrow> storage \<Rightarrow> session \<times> storage" where
  "saveSession pf sessionName st =
     (let latest = getLatestGroups st;
          existing = (case savedSessions st of Some l \<Rightarrow> l | None \<Rightarrow> []);
          s = \<lparr>generatedAt = generatedAt latest, groups = groups latest,
               id' = numberToString (Date_now pf),
               name = orString sessionName (js ''Session '' @ toLocaleString pf)\<rparr>;
          updated = existing @ [s]
      in (s, st\<lparr>savedSessions := Some updated\<rparr>))"

text \<open>The \<^verbatim>\<open>onInstalled\<close> listener (lines 221-224).\<close>

definition onInstalled :: "storage \<Rightarrow> storage" where
  "onInstalled st =
     st\<lparr>latestGroups := Some \<lparr>generatedAt = None, groups = []\<rparr>, savedSessions := Some []\<rparr>"

section \<open>What the specification says, in its own words\<close>

text \<open>
  The grouping rule as the specification words it: the text of a record is the
  lowercased concatenation of its title, a blank and its summary; a list of keywords
  is mentioned by a text when one of them occurs in it; the category of a record is
  the first of Research, Shopping, Entertainment, Work whose keywords its text
  mentions, and Other when there is none; a group is the records of its category, in
  their order in the input.
\<close>

definition loweredText :: "(jsstring \<Rightarrow> jsstring) \<Rightarrow> summary_rec \<Rightarrow> jsstring" where
  "loweredText lower item = lower (title item @ js '' '' @ summary item)"

definition mentions :: "jsstring list \<Rightarrow> jsstring \<Rightarrow> bool" where
  "mentions keywords text = list_ex (\<lambda>w. sublist w text) keywords"

definition categoryRules :: "(jsstring \<times> jsstring list) list" where
  "categoryRules =
     [(js ''Research'', researchWords), (js ''Shopping'', shoppingWords),
      (js ''Entertainment'', entertainmentWords), (js ''Work'', workWords)]"

definition firstMatchCategory :: "(jsstring \<Rightarrow> jsstring) \<Rightarrow> summary_rec \<Rightarrow> jsstring" where
  "firstMatchCategory lower item =
     (case find (\<lambda>(c, ws). mentions ws (loweredText lower item)) categoryRules of
        Some (c, ws) \<Rightarrow> c
      | None \<Rightarrow> js ''Other'')"

definition inCategory ::
  "(jsstring \<Rightarrow> jsstring) \<Rightarrow> jsstring \<Rightarrow> summary_rec list \<Rightarrow> summary_rec list" where
  "inCategory lower c summaries = filter (\<lambda>item. firstMatchCategory lower item = c) summaries"

definition categories :: "jsstring list" where
  "categories = map js [''Research'', ''Shopping'', ''Entertainment'', ''Work'', ''Other'']"

text \<open>
  What is used of \<^verbatim>\<open>toLowerCase\<close> in the examples: on a text of ASCII characters it
  turns the letters \<open>A\<close> to \<open>Z\<close> into \<open>a\<close> to \<open>z\<close> and leaves the rest.
\<close>

definition allASCII :: "jsstring \<Rightarrow> bool" where
  "allASCII s = list_all (\<lambda>u. u < 128) s"

definition asciiLower :: "jsstring \<Rightarrow> jsstring" where
  "asciiLower s = map (\<lambda>u. if 65 \<le> u \<and> u \<le> 90 then u + 32 else u) s"

definition asciiFaithful :: "(jsstring \<Rightarrow> jsstring) \<Rightarrow> bool" where
  "asciiFaithful lower = (\<forall>s. allASCII s \<longrightarrow> lower s = asciiLower s)"

text \<open>A record with a title and a summary text, for the examples.\<close>

definition titled :: "int \<Rightarrow> jsstring \<Rightarrow> jsstring \<Rightarrow> summary_rec" where
  "titled i t s =
     \<lparr>tabId = i, windowId = None, url = [], title = t, favIconUrl = [], summary = s\<rparr>"



text \<open>
  Re-linking as the specification words it, with what happens to an item that matches
  no record: \<open>relinkedFrom summaries item r\<close> says that the item is not \<^verbatim>\<open>null\<close> and that
  \<open>r\<close> is the first input record with the item's url or the item's title, or that no
  input record has either and \<open>r\<close> is the placeholder made of the item's own url, title
  and summary (the empty string for a missing or falsy one).
\<close>

definition sameUrlOrTitle :: "json \<Rightarrow> summary_rec \<Rightarrow> bool" where
  "sameUrlOrTitle item s =
     (getProp item (js ''url'') = Returned (Some (JStr (url s))) \<or>
      getProp item (js ''title'') = Returned (Some (JStr (title s))))"

definition itemProp :: "json \<Rightarrow> jsstring \<Rightarrow> json option" where
  "itemProp item k = (case getProp item k of Returned v \<Rightarrow> v | Threw \<Rightarrow> None)"

definition placeholderOf :: "json \<Rightarrow> group_item" where
  "placeholderOf item =
     Placeholder (orEmpty (itemProp item (js ''url''))) (orEmpty (itemProp item (js ''title'')))
       (orEmpty (itemProp item (js ''summary'')))"

definition relinkedFrom :: "summary_rec list \<Rightarrow> json \<Rightarrow> group_item \<Rightarrow> bool" where
  "relinkedFrom summaries item r =
     (item \<noteq> JNull \<and>
      ((\<exists>i < length summaries. r = Original (summaries ! i) \<and>
          sameUrlOrTitle item (summaries ! i) \<and>
          (\<forall>j < i. \<not> sameUrlOrTitle item (summaries ! j))) \<or>
       ((\<forall>s \<in> set summaries. \<not> sameUrlOrTitle item s) \<and> r = placeholderOf item)))"

text \<open>Example inputs: a record, replies of the prompting capability, and their parses.\<close>

definition exampleRecord :: summary_rec where
  "exampleRecord =
     \<lparr>tabId = 7, windowId = Some 1, url = js ''https://arxiv.org/abs/1'',
      title = js ''A paper'', favIconUrl = [], summary = js ''Summary for A paper''\<rparr>"

definition replyModel :: "jsstring \<Rightarrow> language_model" where
  "replyModel reply = (\<lambda>prompt. Returned (RawString reply))"

definition ghostReply :: jsstring where
  \<open>ghostReply = js ''{"groups":{"Misc":[{"url":"https://ghost.example/","title":"Ghost"}]}}''\<close>

definition ghostParsed :: json where
  "ghostParsed =
     JObj [(js ''groups'', JObj [(js ''Misc'',
       JArr [JObj [(js ''url'', JStr (js ''https://ghost.example/'')),
                   (js ''title'', JStr (js ''Ghost''))]])])]"

definition emptyKeyReply :: jsstring where
  \<open>emptyKeyReply = js ''{"groups":{"":[{"url":"https://arxiv.org/abs/1"}]}}''\<close>

definition emptyKeyParsed :: json where
  "emptyKeyParsed =
     JObj [(js ''groups'', JObj [([],
       JArr [JObj [(js ''url'', JStr (js ''https://arxiv.org/abs/1''))]])])]"

definition emptyGroupReply :: jsstring where
  \<open>emptyGroupReply = js ''{"groups":{"Research":[]}}''\<close>

definition emptyGroupParsed :: json where
  "emptyGroupParsed = JObj [(js ''groups'', JObj [(js ''Research'', JArr [])])]"

definition relinkReply :: jsstring where
  \<open>relinkReply = js ''```json{"groups":{"Reading":[{"title":"A paper"}]}}```''\<close>

definition relinkParsed :: json where
  "relinkParsed =
     JObj [(js ''groups'', JObj [(js ''Reading'',
       JArr [JObj [(js ''title'', JStr (js ''A paper''))]])])]"

definition noGroupsReply :: jsstring where
  \<open>noGroupsReply = js ''{"categories":[]}''\<close>

definition noGroupsParsed :: json where
  "noGroupsParsed = JObj [(js ''categories'', JArr [])]"

text \<open>\<^verbatim>\<open>JSON.parse\<close> on the example replies (code fences already stripped).\<close>

definition exampleParse :: "jsstring \<Rightarrow> json option" where
  \<open>exampleParse text =
     map_of
       [(ghostReply, ghostParsed), (emptyKeyReply, emptyKeyParsed),
        (emptyGroupReply, emptyGroupParsed),
        (js ''{"groups":{"Reading":[{"title":"A paper"}]}}'', relinkParsed),
        (noGroupsReply, noGroupsParsed)] text\<close>

text \<open>
  The tabs the claim about \<^verbatim>\<open>processTabsAndStore\<close> says are excluded: no id, the new-tab
  page pending, or a \<^verbatim>\<open>chrome://\<close> url. \<open>falsyIdSkip\<close> adds the id \<open>0\<close>, which
  \<^verbatim>\<open>!tab.id\<close> rejects as well. \<open>keptRecords\<close> are the summary records of the tabs that
  are left, one for each, in the order of the tabs.
\<close>

definition claimedSkip :: "tab \<Rightarrow> bool" where
  "claimedSkip t =
     (tab_id t = None \<or> tab_pendingUrl t = Some (js ''chrome://newtab/'') \<or>
      (case tab_url t of None \<Rightarrow> False | Some u \<Rightarrow> startsWith u (js ''chrome://'')))"

definition falsyIdSkip :: "tab \<Rightarrow> bool" where
  "falsyIdSkip t = (claimedSkip t \<or> tab_id t = Some 0)"

definition keptRecords :: "platform \<Rightarrow> summary_rec list" where
  "keptRecords pf =
     map (summaryRecord (executeScript pf) (tryCreateSummarizer pf) (tryCreateLanguageModel pf))
       (filter (\<lambda>t. \<not> falsyIdSkip t) (tabs_query pf))"

text \<open>Example surroundings: page hosts, a summarizer, tabs, a platform, a storage.\<close>

definition noScript :: script_host where
  "noScript = (\<lambda>tid. Threw)"



definition exampleTab :: tab where
  "exampleTab =
     \<lparr>tab_id = Some 7, tab_windowId = Some 1, tab_url = Some (js ''https://arxiv.org/abs/1''),
      tab_pendingUrl = None, tab_title = Some (js ''A paper''), tab_favIconUrl = None\<rparr>"

definition zeroTab :: tab where
  "zeroTab =
     \<lparr>tab_id = Some 0, tab_windowId = Some 1, tab_url = Some (js ''https://example.org/''),
      tab_pendingUrl = None, tab_title = Some (js ''Example''), tab_favIconUrl = None\<rparr>"

definition settingsTab :: tab where
  "settingsTab =
     \<lparr>tab_id = Some 9, tab_windowId = Some 1, tab_url = Some (js ''chrome://settings/''),
      tab_pendingUrl = None, tab_title = Some (js ''Settings''), tab_favIconUrl = None\<rparr>"

definition examplePlatform :: "tab list \<Rightarrow> int \<Rightarrow> platform" where
  "examplePlatform tabs now =
     \<lparr>self_ai_summarizer = None, aiOriginTrial_summarizer = None,
      self_ai_languageModel = None, aiOriginTrial_languageModel = None,
      tabs_query = tabs, executeScript = noScript, JSON_parse = exampleParse,
      toLowerCase = asciiLower, Date_now = now,
      toLocaleString = js ''11/3/2026, 9:32:00 AM''\<rparr>"

definition emptyStorage :: storage where
  "emptyStorage = \<lparr>latestGroups = None, savedSessions = None\<rparr>"

section \<open>Strings\<close>

lemma js_eq_iff [simp]: "(js a = js b) = (a = b)"
  by (simp add: js_def inj_on_def)

lemma js_Nil_iff [simp]: "(js a = []) = (a = [])" "([] = js a) = (a = [])"
  by (auto simp add: js_def)

lemma js_append: "js (a @ b) = js a @ js b"
  by (simp add: js_def)

lemma startsWith_prefix: "startsWith s p = prefix p s"
proof
  assume "startsWith s p"
  then have "s = p @ drop (length p) s"
    by (metis append_take_drop_id startsWith_def)
  then show "prefix p s"
    by (metis prefixI)
next
  assume "prefix p s"
  then show "startsWith s p"
    by (auto simp add: startsWith_def prefix_def)
qed

lemma hasSubstring_sublist: "hasSubstring s kw = sublist kw s"
  by (induction s) (simp_all add: sublist_Cons_right startsWith_prefix)

lemma regexTest_mentions: "regexTest ws text = mentions ws text"
  by (induction ws) (simp_all add: regexTest_def mentions_def hasSubstring_sublist)

lemma itemText_loweredText: "itemText lower item = loweredText lower item"
  by (simp add: itemText_def loweredText_def)

text \<open>A keyword without blanks occurs in two texts joined by a blank only inside one of them.\<close>

lemma sublist_blank:
  assumes "b \<notin> set w"
  shows "sublist w (xs @ b # ys) \<longleftrightarrow> sublist w xs \<or> sublist w ys"
proof
  assume "sublist w xs \<or> sublist w ys"
  then show "sublist w (xs @ b # ys)"
    by (auto simp add: sublist_append sublist_Cons_right)
next
  assume "sublist w (xs @ b # ys)"
  then consider "sublist w xs" | "sublist w (b # ys)"
    | w1 w2 where "w = w1 @ w2" "suffix w1 xs" "prefix w2 (b # ys)" "w1 \<noteq> []" "w2 \<noteq> []"
    by (auto simp add: sublist_append) (metis append.right_neutral append_Nil prefix_imp_sublist
        suffix_imp_sublist)
  then show "sublist w xs \<or> sublist w ys"
  proof cases
    case 1
    then show ?thesis by simp
  next
    case 2
    with assms show ?thesis
      by (cases w) (auto simp add: sublist_Cons_right)
  next
    case 3
    from 3(3,5) obtain w2' where "w2 = b # w2'"
      by (cases w2) auto
    with 3(1) assms show ?thesis by simp
  qed
qed

lemma mentions_blank:
  assumes "list_all (\<lambda>w. b \<notin> set w) ws"
  shows "mentions ws (xs @ b # ys) \<longleftrightarrow> mentions ws xs \<or> mentions ws ys"
  using assms
  by (induction ws) (auto simp add: mentions_def sublist_blank)

lemma asciiLower_append: "asciiLower (xs @ ys) = asciiLower xs @ asciiLower ys"
  by (simp add: asciiLower_def)

lemma allASCII_append: "allASCII (xs @ ys) = (allASCII xs \<and> allASCII ys)"
  by (simp add: allASCII_def)

lemma asciiFaithfulD: "asciiFaithful lower \<Longrightarrow> allASCII s \<Longrightarrow> lower s = asciiLower s"
  by (simp add: asciiFaithful_def)

lemma asciiFaithful_asciiLower: "asciiFaithful asciiLower"
  by (simp add: asciiFaithful_def)

section \<open>The heuristic grouping\<close>

lemma pushItem_cases:
  "pushItem lower b x =
     (if firstMatchCategory lower x = js ''Research'' then b\<lparr>Research := Research b @ [x]\<rparr>
      else if firstMatchCategory lower x = js ''Shopping'' then b\<lparr>Shopping := Shopping b @ [x]\<rparr>
      else if firstMatchCategory lower x = js ''Entertainment''
        then b\<lparr>Entertainment := Entertainment b @ [x]\<rparr>
      else if firstMatchCategory lower x = js ''Work'' then b\<lparr>Work := Work b @ [x]\<rparr>
      else b\<lparr>Other := Other b @ [x]\<rparr>)"
  by (simp add: pushItem_def firstMatchCategory_def categoryRules_def Let_def
      regexTest_mentions itemText_loweredText)

lemma firstMatchCategory_range: "firstMatchCategory lower x \<in> set categories"
  by (simp add: firstMatchCategory_def categoryRules_def categories_def)

lemma foldl_pushItem:
  "foldl (pushItem lower) b xs =
     \<lparr>Research = Research b @ inCategory lower (js ''Research'') xs,
      Shopping = Shopping b @ inCategory lower (js ''Shopping'') xs,
      Entertainment = Entertainment b @ inCategory lower (js ''Entertainment'') xs,
      Work = Work b @ inCategory lower (js ''Work'') xs,
      Other = Other b @ inCategory lower (js ''Other'') xs\<rparr>"
proof (induction xs arbitrary: b)
  case Nil
  show ?case by (simp add: inCategory_def)
next
  case (Cons x xs)
  have "firstMatchCategory lower x \<in> set categories"
    by (rule firstMatchCategory_range)
  then show ?case
    unfolding foldl_Cons Cons.IH
    by (auto simp add: pushItem_cases inCategory_def categories_def)
qed

lemma heuristicGroups_eq:
  "heuristicGroups lower xs =
     filter (\<lambda>(k, v). v \<noteq> []) (map (\<lambda>c. (c, inCategory lower c xs)) categories)"
  by (simp add: heuristicGroups_def foldl_pushItem bucketEntries_def emptyBuckets_def
      categories_def)

lemma heuristicGroups_map:
  "heuristicGroups lower xs =
     map (\<lambda>c. (c, inCategory lower c xs)) (filter (\<lambda>c. inCategory lower c xs \<noteq> []) categories)"
  by (simp add: heuristicGroups_eq filter_map comp_def)

lemma groupSummaries_no_model:
  "groupSummaries parse lower xs None =
     map (\<lambda>(k, v). (k, map Original v)) (heuristicGroups lower xs)"
  by (simp add: groupSummaries_def aiGroups_def)

lemma mset_inCategory:
  "mset (inCategory lower (js ''Research'') xs) + mset (inCategory lower (js ''Shopping'') xs) +
   mset (inCategory lower (js ''Entertainment'') xs) + mset (inCategory lower (js ''Work'') xs) +
   mset (inCategory lower (js ''Other'') xs) = mset xs"
proof (induction xs)
  case Nil
  show ?case by (simp add: inCategory_def)
next
  case (Cons x xs)
  have "firstMatchCategory lower x \<in> set categories"
    by (rule firstMatchCategory_range)
  with Cons show ?case
    by (auto simp add: inCategory_def categories_def)
qed

lemma concat_nonempty: "concat (map snd (filter (\<lambda>(k, v). v \<noteq> []) kvs)) = concat (map snd kvs)"
  by (induction kvs) auto

lemma mset_heuristicGroups: "mset (concat (map snd (heuristicGroups lower xs))) = mset xs"
  unfolding heuristicGroups_eq concat_nonempty
  using mset_inCategory [of lower xs] by (simp add: categories_def ac_simps)

lemma inCategory_members:
  "filter (\<lambda>r. r \<in> set (inCategory lower c xs)) xs = inCategory lower c xs"
  by (auto simp add: inCategory_def intro: filter_cong)

lemma keywords_no_blank:
  "list_all (\<lambda>w. 32 \<notin> set w) researchWords"
  "list_all (\<lambda>w. 32 \<notin> set w) shoppingWords"
  "list_all (\<lambda>w. 32 \<notin> set w) entertainmentWords"
  "list_all (\<lambda>w. 32 \<notin> set w) workWords"
  by (simp_all add: researchWords_def shoppingWords_def entertainmentWords_def workWords_def
      js_def)

lemma loweredText_titled:
  assumes "asciiFaithful lower" "allASCII t" "allASCII s"
  shows "loweredText lower (titled i t s) = asciiLower t @ 32 # asciiLower s"
proof -
  have "allASCII (t @ js '' '' @ s)"
    using assms by (simp add: allASCII_append) (simp add: allASCII_def js_def)
  with assms(1) have "lower (t @ js '' '' @ s) = asciiLower (t @ js '' '' @ s)"
    by (rule asciiFaithfulD)
  then show ?thesis
    by (simp add: loweredText_def titled_def asciiLower_append) (simp add: asciiLower_def js_def)
qed

lemma mentions_titled:
  assumes "asciiFaithful lower" "allASCII t" "allASCII s"
  shows
    "mentions researchWords (loweredText lower (titled i t s)) =
       (mentions researchWords (asciiLower t) \<or> mentions researchWords (asciiLower s))"
    "mentions shoppingWords (loweredText lower (titled i t s)) =
       (mentions shoppingWords (asciiLower t) \<or> mentions shoppingWords (asciiLower s))"
    "mentions entertainmentWords (loweredText lower (titled i t s)) =
       (mentions entertainmentWords (asciiLower t) \<or> mentions entertainmentWords (asciiLower s))"
    "mentions workWords (loweredText lower (titled i t s)) =
       (mentions workWords (asciiLower t) \<or> mentions workWords (asciiLower s))"
  by (simp_all add: loweredText_titled [OF assms] mentions_blank keywords_no_blank)

lemmas word_simps =
  mentions_def researchWords_def shoppingWords_def entertainmentWords_def workWords_def
  asciiLower_def allASCII_def js_def sublist_Cons_right

lemma arxiv_paper:
  "allASCII (js ''arxiv paper'')" "mentions researchWords (asciiLower (js ''arxiv paper''))"
  by (simp_all add: word_simps)

lemma amazon_deal:
  "allASCII (js ''amazon deal'')"
  "\<not> mentions researchWords (asciiLower (js ''amazon deal''))"
  "mentions shoppingWords (asciiLower (js ''amazon deal''))"
  by (simp_all add: word_simps)

lemma youtube_video:
  "allASCII (js ''youtube video'')"
  "\<not> mentions researchWords (asciiLower (js ''youtube video''))"
  "\<not> mentions shoppingWords (asciiLower (js ''youtube video''))"
  "mentions entertainmentWords (asciiLower (js ''youtube video''))"
  by (simp_all add: word_simps)


lemma mentions_append: "mentions (ws @ vs) text = (mentions ws text \<or> mentions vs text)"
  by (simp add: mentions_def)

lemma category_arxiv_paper:
  assumes "asciiFaithful lower" "allASCII t"
  shows "firstMatchCategory lower (titled i t (js ''arxiv paper'')) = js ''Research''"
  by (simp add: firstMatchCategory_def categoryRules_def
      mentions_titled [OF assms arxiv_paper(1)] arxiv_paper)

lemma category_amazon_deal:
  assumes "asciiFaithful lower" "allASCII t" "\<not> mentions researchWords (asciiLower t)"
  shows "firstMatchCategory lower (titled i t (js ''amazon deal'')) = js ''Shopping''"
  using assms(3)
  by (simp add: firstMatchCategory_def categoryRules_def
      mentions_titled [OF assms(1,2) amazon_deal(1)] amazon_deal)

lemma category_youtube_video:
  assumes "asciiFaithful lower" "allASCII t"
    "\<not> mentions (researchWords @ shoppingWords) (asciiLower t)"
  shows "firstMatchCategory lower (titled i t (js ''youtube video'')) = js ''Entertainment''"
  using assms(3)
  by (simp add: firstMatchCategory_def categoryRules_def mentions_append
      mentions_titled [OF assms(1,2) youtube_video(1)] youtube_video)

lemma heuristicGroups_claim_example:
  assumes "asciiFaithful lower" "allASCII t1" "allASCII t2" "allASCII t3"
    "\<not> mentions researchWords (asciiLower t2)"
    "\<not> mentions (researchWords @ shoppingWords) (asciiLower t3)"
  shows "heuristicGroups lower
     [titled 1 t1 (js ''arxiv paper''), titled 2 t2 (js ''amazon deal''),
      titled 3 t3 (js ''youtube video'')] =
     [(js ''Research'', [titled 1 t1 (js ''arxiv paper'')]),
      (js ''Shopping'', [titled 2 t2 (js ''amazon deal'')]),
      (js ''Entertainment'', [titled 3 t3 (js ''youtube video'')])]"
  by (simp add: heuristicGroups_eq inCategory_def categories_def
      category_arxiv_paper [OF assms(1,2)] category_amazon_deal [OF assms(1,3,5)]
      category_youtube_video [OF assms(1,4,6)])

lemma pinned_words:
  "allASCII (js ''GITHUB'')" "allASCII (js ''Pull Requests'')" "allASCII (js ''pa'')"
  "allASCII (js ''per'')" "allASCII (js ''Amazon'')" "allASCII (js ''Paper towels'')"
  "allASCII (js ''Prime Day'')"
  "\<not> mentions researchWords (asciiLower (js ''GITHUB''))"
  "\<not> mentions shoppingWords (asciiLower (js ''GITHUB''))"
  "\<not> mentions entertainmentWords (asciiLower (js ''GITHUB''))"
  "mentions workWords (asciiLower (js ''GITHUB''))"
  "\<not> mentions researchWords (asciiLower (js ''Pull Requests''))"
  "\<not> mentions shoppingWords (asciiLower (js ''Pull Requests''))"
  "\<not> mentions entertainmentWords (asciiLower (js ''Pull Requests''))"
  "\<not> mentions researchWords (asciiLower (js ''pa''))"
  "\<not> mentions shoppingWords (asciiLower (js ''pa''))"
  "\<not> mentions entertainmentWords (asciiLower (js ''pa''))"
  "\<not> mentions workWords (asciiLower (js ''pa''))"
  "\<not> mentions researchWords (asciiLower (js ''per''))"
  "\<not> mentions shoppingWords (asciiLower (js ''per''))"
  "\<not> mentions entertainmentWords (asciiLower (js ''per''))"
  "\<not> mentions workWords (asciiLower (js ''per''))"
  "mentions researchWords (asciiLower (js ''Paper towels''))"
  "\<not> mentions researchWords (asciiLower (js ''Prime Day''))"
  by (simp_all add: word_simps)

lemma category_pinned:
  assumes "asciiFaithful lower"
  shows
    "firstMatchCategory lower (titled 4 (js ''GITHUB'') (js ''Pull Requests'')) = js ''Work''"
    "firstMatchCategory lower (titled 5 (js ''pa'') (js ''per'')) = js ''Other''"
    "firstMatchCategory lower (titled 6 (js ''Amazon'') (js ''Paper towels'')) = js ''Research''"
    "firstMatchCategory lower (titled 7 (js ''Prime Day'') (js ''amazon deal'')) = js ''Shopping''"
proof -
  show "firstMatchCategory lower (titled 4 (js ''GITHUB'') (js ''Pull Requests'')) = js ''Work''"
    by (simp add: firstMatchCategory_def categoryRules_def
        mentions_titled [OF assms pinned_words(1) pinned_words(2)] pinned_words)
  show "firstMatchCategory lower (titled 5 (js ''pa'') (js ''per'')) = js ''Other''"
    by (simp add: firstMatchCategory_def categoryRules_def
        mentions_titled [OF assms pinned_words(3) pinned_words(4)] pinned_words)
  show "firstMatchCategory lower (titled 6 (js ''Amazon'') (js ''Paper towels'')) = js ''Research''"
    by (simp add: firstMatchCategory_def categoryRules_def
        mentions_titled [OF assms pinned_words(5) pinned_words(6)] pinned_words)
  show "firstMatchCategory lower (titled 7 (js ''Prime Day'') (js ''amazon deal'')) = js ''Shopping''"
    by (rule category_amazon_deal [OF assms pinned_words(7) pinned_words(24)])
qed

lemma heuristicGroups_pinned:
  assumes "asciiFaithful lower"
  shows "heuristicGroups lower
     [titled 4 (js ''GITHUB'') (js ''Pull Requests''), titled 5 (js ''pa'') (js ''per''),
      titled 6 (js ''Amazon'') (js ''Paper towels''),
      titled 7 (js ''Prime Day'') (js ''amazon deal'')] =
     [(js ''Research'', [titled 6 (js ''Amazon'') (js ''Paper towels'')]),
      (js ''Shopping'', [titled 7 (js ''Prime Day'') (js ''amazon deal'')]),
      (js ''Work'', [titled 4 (js ''GITHUB'') (js ''Pull Requests'')]),
      (js ''Other'', [titled 5 (js ''pa'') (js ''per'')])]"
  by (simp add: heuristicGroups_eq inCategory_def categories_def category_pinned [OF assms])

text \<open>
  Claim C3. With no prompting capability, \<^verbatim>\<open>groupSummaries\<close> returns, for each of the
  five categories Research, Shopping, Entertainment, Work, Other in this order that has
  a record, the records whose category it is, where the category of a record is the
  first one with a keyword in the lowercased concatenation of title, blank and
  summary, and Other when there is none: each record is in the group of its one
  category. With a \<^verbatim>\<open>toLowerCase\<close> that does to ASCII text what the language says, the
  records with the summaries "arxiv paper", "amazon deal" and "youtube video" land in
  Research, Shopping and Entertainment, whatever their ASCII titles, as long as the
  title of the second mentions no Research keyword and the title of the third no
  Research or Shopping keyword (the empty title is such a title). Four more records
  show the parts of the rule: capitals are lowered and the title counts (GITHUB is
  Work), the blank between title and summary is there (pa, per is Other), the first
  category wins (Amazon, Paper towels is Research), and a title without keywords
  leaves the summary to decide (Prime Day, amazon deal is Shopping).
\<close>

theorem groupSummaries_without_capability:
  "groupSummaries parse lower summaries None =
     map (\<lambda>c. (c, map Original (inCategory lower c summaries)))
       (filter (\<lambda>c. inCategory lower c summaries \<noteq> []) categories) \<and>
   (asciiFaithful lower \<and> allASCII t1 \<and> allASCII t2 \<and> allASCII t3 \<and>
    \<not> mentions researchWords (asciiLower t2) \<and>
    \<not> mentions (researchWords @ shoppingWords) (asciiLower t3) \<longrightarrow>
    groupSummaries parse lower
      [titled 1 t1 (js ''arxiv paper''), titled 2 t2 (js ''amazon deal''),
       titled 3 t3 (js ''youtube video'')] None =
      [(js ''Research'', [Original (titled 1 t1 (js ''arxiv paper''))]),
       (js ''Shopping'', [Original (titled 2 t2 (js ''amazon deal''))]),
       (js ''Entertainment'', [Original (titled 3 t3 (js ''youtube video''))])]) \<and>
   (asciiFaithful lower \<longrightarrow>
    groupSummaries parse lower
      [titled 4 (js ''GITHUB'') (js ''Pull Requests''), titled 5 (js ''pa'') (js ''per''),
       titled 6 (js ''Amazon'') (js ''Paper towels''),
       titled 7 (js ''Prime Day'') (js ''amazon deal'')] None =
      [(js ''Research'', [Original (titled 6 (js ''Amazon'') (js ''Paper towels''))]),
       (js ''Shopping'', [Original (titled 7 (js ''Prime Day'') (js ''amazon deal''))]),
       (js ''Work'', [Original (titled 4 (js ''GITHUB'') (js ''Pull Requests''))]),
       (js ''Other'', [Original (titled 5 (js ''pa'') (js ''per''))])])"
proof (intro conjI impI)
  show "groupSummaries parse lower summaries None =
     map (\<lambda>c. (c, map Original (inCategory lower c summaries)))
       (filter (\<lambda>c. inCategory lower c summaries \<noteq> []) categories)"
    by (simp add: groupSummaries_no_model heuristicGroups_map comp_def)
next
  assume "asciiFaithful lower \<and> allASCII t1 \<and> allASCII t2 \<and> allASCII t3 \<and>
    \<not> mentions researchWords (asciiLower t2) \<and>
    \<not> mentions (researchWords @ shoppingWords) (asciiLower t3)"
  then show "groupSummaries parse lower
      [titled 1 t1 (js ''arxiv paper''), titled 2 t2 (js ''amazon deal''),
       titled 3 t3 (js ''youtube video'')] None =
      [(js ''Research'', [Original (titled 1 t1 (js ''arxiv paper''))]),
       (js ''Shopping'', [Original (titled 2 t2 (js ''amazon deal''))]),
       (js ''Entertainment'', [Original (titled 3 t3 (js ''youtube video''))])]"
    by (simp add: groupSummaries_no_model heuristicGroups_claim_example)
next
  assume "asciiFaithful lower"
  then show "groupSummaries parse lower
      [titled 4 (js ''GITHUB'') (js ''Pull Requests''), titled 5 (js ''pa'') (js ''per''),
       titled 6 (js ''Amazon'') (js ''Paper towels''),
       titled 7 (js ''Prime Day'') (js ''amazon deal'')] None =
      [(js ''Research'', [Original (titled 6 (js ''Amazon'') (js ''Paper towels''))]),
       (js ''Shopping'', [Original (titled 7 (js ''Prime Day'') (js ''amazon deal''))]),
       (js ''Work'', [Original (titled 4 (js ''GITHUB'') (js ''Pull Requests''))]),
       (js ''Other'', [Original (titled 5 (js ''pa'') (js ''per''))])]"
    by (simp add: groupSummaries_no_model heuristicGroups_pinned)
qed


lemma titles_words:
  "allASCII (js ''Amazon'')" "allASCII (js ''Checkout'')" "allASCII (js ''Watch later'')"
  "\<not> mentions researchWords (asciiLower (js ''Checkout''))"
  "\<not> mentions (researchWords @ shoppingWords) (asciiLower (js ''Watch later''))"
  by (simp_all add: word_simps)

text \<open>
  The theorem with the ASCII lowering as \<^verbatim>\<open>toLowerCase\<close> and three titles, the first
  of which mentions a Shopping keyword: the summary's Research keyword wins.
\<close>

theorem groupSummaries_without_capability_witness:
  "asciiFaithful asciiLower \<and>
   allASCII (js ''Amazon'') \<and> allASCII (js ''Checkout'') \<and> allASCII (js ''Watch later'') \<and>
   \<not> mentions researchWords (asciiLower (js ''Checkout'')) \<and>
   \<not> mentions (researchWords @ shoppingWords) (asciiLower (js ''Watch later'')) \<and>
   groupSummaries exampleParse asciiLower
      [titled 1 (js ''Amazon'') (js ''arxiv paper''),
       titled 2 (js ''Checkout'') (js ''amazon deal''),
       titled 3 (js ''Watch later'') (js ''youtube video'')] None =
      [(js ''Research'', [Original (titled 1 (js ''Amazon'') (js ''arxiv paper''))]),
       (js ''Shopping'', [Original (titled 2 (js ''Checkout'') (js ''amazon deal''))]),
       (js ''Entertainment'',
          [Original (titled 3 (js ''Watch later'') (js ''youtube video''))])] \<and>
   groupSummaries exampleParse asciiLower
      [titled 4 (js ''GITHUB'') (js ''Pull Requests''), titled 5 (js ''pa'') (js ''per''),
       titled 6 (js ''Amazon'') (js ''Paper towels''),
       titled 7 (js ''Prime Day'') (js ''amazon deal'')] None =
      [(js ''Research'', [Original (titled 6 (js ''Amazon'') (js ''Paper towels''))]),
       (js ''Shopping'', [Original (titled 7 (js ''Prime Day'') (js ''amazon deal''))]),
       (js ''Work'', [Original (titled 4 (js ''GITHUB'') (js ''Pull Requests''))]),
       (js ''Other'', [Original (titled 5 (js ''pa'') (js ''per''))])]"
proof -
  from groupSummaries_without_capability
      [of exampleParse asciiLower "[]" "js ''Amazon''" "js ''Checkout''" "js ''Watch later''",
        THEN conjunct2]
    asciiFaithful_asciiLower titles_words
  show ?thesis by simp
qed


lemma heuristicGroups_example:
  "heuristicGroups asciiLower
     [titled 1 [] (js ''arxiv paper''), titled 2 [] (js ''amazon deal''),
      titled 3 [] (js ''youtube video'')] =
     [(js ''Research'', [titled 1 [] (js ''arxiv paper'')]),
      (js ''Shopping'', [titled 2 [] (js ''amazon deal'')]),
      (js ''Entertainment'', [titled 3 [] (js ''youtube video'')])]"
  by (rule heuristicGroups_claim_example [OF asciiFaithful_asciiLower])
     (simp_all add: word_simps)

text \<open>
  Claim C10. The heuristic grouping is a partition of its input: the group lists,
  concatenated in the order of the output, hold every input record exactly as often as
  the input does; the keys are categories, in the fixed order; and each group is the
  input list restricted to the group's members, so its records stand in their input
  order. The mock and the fallback of \<^verbatim>\<open>groupSummaries\<close> are this grouping.
\<close>

theorem heuristicGroups_partition:
  "mset (concat (map snd (heuristicGroups lower xs))) = mset xs \<and>
   (\<forall>(k, v) \<in> set (heuristicGroups lower xs).
      k \<in> set categories \<and> filter (\<lambda>r. r \<in> set v) xs = v) \<and>
   subseq (map fst (heuristicGroups lower xs)) categories \<and>
   groupSummariesMock lower xs = heuristicGroups lower xs \<and>
   groupSummaries parse lower xs None =
     map (\<lambda>(k, v). (k, map Original v)) (heuristicGroups lower xs)"
proof -
  have "mset (concat (map snd (heuristicGroups lower xs))) = mset xs"
    by (rule mset_heuristicGroups)
  moreover have "\<forall>(k, v) \<in> set (heuristicGroups lower xs).
      k \<in> set categories \<and> filter (\<lambda>r. r \<in> set v) xs = v"
    by (auto simp add: heuristicGroups_map inCategory_members)
  moreover have "subseq (map fst (heuristicGroups lower xs)) categories"
    by (simp add: heuristicGroups_map comp_def)
  ultimately show ?thesis
    by (simp add: groupSummariesMock_def groupSummaries_no_model)
qed

theorem heuristicGroups_partition_witness:
  "heuristicGroups asciiLower
     [titled 1 [] (js ''arxiv paper''), titled 2 [] (js ''amazon deal''),
      titled 3 [] (js ''youtube video'')] =
     [(js ''Research'', [titled 1 [] (js ''arxiv paper'')]),
      (js ''Shopping'', [titled 2 [] (js ''amazon deal'')]),
      (js ''Entertainment'', [titled 3 [] (js ''youtube video'')])] \<and>
   mset (concat (map snd (heuristicGroups asciiLower
     [titled 1 [] (js ''arxiv paper''), titled 2 [] (js ''amazon deal''),
      titled 3 [] (js ''youtube video'')]))) =
   mset [titled 1 [] (js ''arxiv paper''), titled 2 [] (js ''amazon deal''),
      titled 3 [] (js ''youtube video'')]"
  using heuristicGroups_partition
    [of asciiLower "[titled 1 [] (js ''arxiv paper''), titled 2 [] (js ''amazon deal''),
          titled 3 [] (js ''youtube video'')]"]
  by (simp only: heuristicGroups_example simp_thms)

section \<open>The AI path of the grouping step\<close>

lemma getProp_not_null: "item \<noteq> JNull \<Longrightarrow> getProp item k = Returned (itemProp item k)"
  by (cases item) (simp_all add: itemProp_def)

lemma relink_Returned:
  assumes "relink ss item = Returned r"
  shows "relinkedFrom ss item r"
proof -
  from assms have nn: "item \<noteq> JNull"
    by (auto simp add: relink_def)
  let ?u = "itemProp item (js ''url'')" and ?t = "itemProp item (js ''title'')"
  from assms nn have r: "r = (case find (matchesItem ?u ?t) ss of
                   Some match \<Rightarrow> Original match
                 | None \<Rightarrow> placeholderOf item)"
    by (auto simp add: relink_def getProp_not_null placeholderOf_def split: option.splits)
  from nn have same: "sameUrlOrTitle item s = matchesItem ?u ?t s" for s
    by (auto simp add: sameUrlOrTitle_def matchesItem_def getProp_not_null)
  show ?thesis
  proof (cases "find (matchesItem ?u ?t) ss")
    case None
    then have "\<forall>s \<in> set ss. \<not> sameUrlOrTitle item s"
      by (simp add: find_None_iff same)
    with None r nn show ?thesis
      by (simp add: relinkedFrom_def)
  next
    case (Some s)
    then have "\<exists>i < length ss. s = ss ! i \<and> sameUrlOrTitle item (ss ! i) \<and>
        (\<forall>j < i. \<not> sameUrlOrTitle item (ss ! j))"
      by (auto simp add: find_Some_iff same)
    with Some r nn show ?thesis
      by (auto simp add: relinkedFrom_def)
  qed
qed

lemma relinkedFrom_Original: "relinkedFrom ss item (Original s) \<Longrightarrow> s \<in> set ss"
  by (auto simp add: relinkedFrom_def placeholderOf_def)

lemma mapItems_Returned:
  "mapItems ss v = Returned rs \<Longrightarrow> list_all2 (\<lambda>item r. relink ss item = Returned r) v rs"
  by (induction v arbitrary: rs) (auto split: outcome.splits)

lemma set_update_subset: "set (AList.update k v al) \<subseteq> insert (k, v) (set al)"
  by (induction al) auto

lemma set_assignKey_subset: "set (assignKey k v al) \<subseteq> insert (k, v) (set al)"
  using set_update_subset [of k v al] by (auto simp add: assignKey_def)

lemma distinct_assignKey: "distinct (map fst al) \<Longrightarrow> distinct (map fst (assignKey k v al))"
  by (simp add: assignKey_def distinct_update)

lemma cleanEntries_sound:
  "cleanEntries ss es c0 = Returned c \<Longrightarrow> (k, recs) \<in> set c \<Longrightarrow>
   (k, recs) \<in> set c0 \<or> (\<exists>v. (k, JArr v) \<in> set es \<and> mapItems ss v = Returned recs)"
proof (induction ss es c0 rule: cleanEntries.induct)
  case (1 summaries cleaned)
  then show ?case by simp
next
  case (2 summaries k' v es cleaned)
  from "2.prems"(1) obtain items where
    m: "mapItems summaries v = Returned items" and
    c: "cleanEntries summaries es (assignKey k' items cleaned) = Returned c"
    by (auto split: outcome.splits)
  from "2.IH" [OF m c "2.prems"(2)] show ?case
  proof
    assume "(k, recs) \<in> set (assignKey k' items cleaned)"
    with set_assignKey_subset [of k' items cleaned]
    have "(k, recs) = (k', items) \<or> (k, recs) \<in> set cleaned" by auto
    with m show ?thesis by auto
  next
    assume "\<exists>v. (k, JArr v) \<in> set es \<and> mapItems summaries v = Returned recs"
    then show ?thesis by auto
  qed
qed auto

lemma cleanEntries_distinct:
  "cleanEntries ss es c0 = Returned c \<Longrightarrow> distinct (map fst c0) \<Longrightarrow> distinct (map fst c)"
  by (induction ss es c0 rule: cleanEntries.induct)
     (auto split: outcome.splits intro: distinct_assignKey)


lemma cleanParsed_Some:
  assumes "cleanParsed ss parsed = Some cleaned"
  shows "\<exists>g entries. truthy parsed \<and> getProp parsed (js ''groups'') = Returned (Some g) \<and> truthy g \<and>
           objectEntries g = Some entries \<and>
           cleanEntries ss entries [] = Returned cleaned \<and> cleaned \<noteq> []"
  using assms
  by (auto simp add: cleanParsed_def split: if_splits outcome.splits option.splits)


lemma aiGroups_Some:
  assumes "aiGroups parse ss languageModel = Some cleaned"
  shows "\<exists>lm raw parsed. languageModel = Some lm \<and> ss \<noteq> [] \<and>
           lm (groupPrompt ss) = Returned raw \<and>
           parse (stripFences (rawText raw)) = Some parsed \<and>
           cleanParsed ss parsed = Some cleaned"
  using assms
  by (auto simp add: aiGroups_def split: if_splits outcome.splits option.splits)

lemma groups_relinked:
  assumes "cleanParsed ss parsed = Some cleaned"
  shows "\<exists>g entries. getProp parsed (js ''groups'') = Returned (Some g) \<and>
           objectEntries g = Some entries \<and>
           (\<forall>(k, recs) \<in> set cleaned.
              \<exists>v. (k, JArr v) \<in> set entries \<and> list_all2 (relinkedFrom ss) v recs)"
proof -
  from cleanParsed_Some [OF assms] obtain g entries where
    g: "getProp parsed (js ''groups'') = Returned (Some g)" "objectEntries g = Some entries" and
    c: "cleanEntries ss entries [] = Returned cleaned"
    by blast
  have "\<exists>v. (k, JArr v) \<in> set entries \<and> list_all2 (relinkedFrom ss) v recs"
    if "(k, recs) \<in> set cleaned" for k recs
  proof -
    from cleanEntries_sound [OF c that] obtain v where
      v: "(k, JArr v) \<in> set entries" "mapItems ss v = Returned recs" by auto
    from mapItems_Returned [OF v(2)] have "list_all2 (relinkedFrom ss) v recs"
      by (rule list_all2_mono) (rule relink_Returned)
    with v(1) show ?thesis by blast
  qed
  with g show ?thesis by blast
qed

lemma groupSummaries_ai: "aiGroups parse ss lm = Some cleaned \<Longrightarrow> groupSummaries parse lower ss lm = cleaned"
  by (simp add: groupSummaries_def)

lemma groupSummaries_fallback:
  "aiGroups parse ss lm = None \<Longrightarrow>
   groupSummaries parse lower ss lm = map (\<lambda>(k, v). (k, map Original v)) (heuristicGroups lower ss)"
  by (simp add: groupSummaries_def)

lemma groupSummaries_originals:
  assumes "(k, recs) \<in> set (groupSummaries parse lower ss lm)" and "Original s \<in> set recs"
  shows "s \<in> set ss"
proof (cases "aiGroups parse ss lm")
  case None
  with assms(1) obtain c where "recs = map Original (inCategory lower c ss)"
    by (auto simp add: groupSummaries_fallback heuristicGroups_map)
  with assms(2) show ?thesis
    by (auto simp add: inCategory_def)
next
  case (Some cleaned)
  with assms(1) have k: "(k, recs) \<in> set cleaned"
    by (simp add: groupSummaries_ai)
  from aiGroups_Some [OF Some] obtain parsed where "cleanParsed ss parsed = Some cleaned"
    by blast
  from groups_relinked [OF this] k obtain v where "list_all2 (relinkedFrom ss) v recs"
    by blast
  with assms(2) obtain item where "relinkedFrom ss item (Original s)"
    by (auto simp add: list_all2_conv_all_nth in_set_conv_nth)
  then show ?thesis by (rule relinkedFrom_Original)
qed


lemmas example_simps =
  aiGroups_def replyModel_def stripFences_def startsWith_def endsWith_def fence_def
  exampleParse_def ghostReply_def ghostParsed_def emptyKeyReply_def emptyKeyParsed_def
  emptyGroupReply_def emptyGroupParsed_def relinkReply_def relinkParsed_def
  noGroupsReply_def noGroupsParsed_def cleanParsed_def relink_def matchesItem_def
  assignKey_def exampleRecord_def js_def

lemma aiGroups_ghost:
  "aiGroups exampleParse [exampleRecord] (Some (replyModel ghostReply)) =
     Some [((js ''Misc''), [Placeholder (JStr (js ''https://ghost.example/'')) (JStr (js ''Ghost'')) (JStr [])])]"
  by (simp add: example_simps)

lemma aiGroups_emptyKey:
  "aiGroups exampleParse [exampleRecord] (Some (replyModel emptyKeyReply)) =
     Some [([], [Original exampleRecord])]"
  by (simp add: example_simps)

lemma aiGroups_emptyGroup:
  "aiGroups exampleParse [exampleRecord] (Some (replyModel emptyGroupReply)) =
     Some [((js ''Research''), [])]"
  by (simp add: example_simps)

lemma aiGroups_relink:
  "aiGroups exampleParse [exampleRecord] (Some (replyModel relinkReply)) =
     Some [((js ''Reading''), [Original exampleRecord])]"
  by (simp add: example_simps)


lemma exampleRecord_category: "firstMatchCategory asciiLower exampleRecord = (js ''Research'')"
  by (simp add: firstMatchCategory_def categoryRules_def exampleRecord_def loweredText_def)
     (simp add: word_simps)

lemma heuristicGroups_exampleRecord:
  "heuristicGroups asciiLower [exampleRecord] = [((js ''Research''), [exampleRecord])]"
  by (simp add: heuristicGroups_eq inCategory_def categories_def exampleRecord_category)


text \<open>
  Claim C1, as amended. When the AI path of \<^verbatim>\<open>groupSummaries\<close> returns, the result is the
  cleaned object; each of its groups comes from an array of the reply's \<^verbatim>\<open>groups\<close>
  under the same key, item by item: an item is replaced by the first input record with
  the same url or the same title, and an item that matches no input record is not
  discarded but kept as a placeholder made of the item's own url, title and summary.
  So every record of every group is an input record, with its tabId, url and title,
  or a placeholder whose tabId is null.
\<close>

theorem groupSummaries_relinks:
  assumes "aiGroups parse summaries languageModel = Some cleaned"
  shows "groupSummaries parse lower summaries languageModel = cleaned \<and>
    (\<exists>lm raw parsed g entries.
       languageModel = Some lm \<and> lm (groupPrompt summaries) = Returned raw \<and>
       parse (stripFences (rawText raw)) = Some parsed \<and>
       getProp parsed (js ''groups'') = Returned (Some g) \<and> objectEntries g = Some entries \<and>
       (\<forall>(k, recs) \<in> set cleaned.
          \<exists>v. (k, JArr v) \<in> set entries \<and> list_all2 (relinkedFrom summaries) v recs)) \<and>
    (\<forall>(k, recs) \<in> set cleaned. \<forall>r \<in> set recs.
       (\<exists>s \<in> set summaries. r = Original s) \<or> itemTabId r = None)"
proof -
  have result: "groupSummaries parse lower summaries languageModel = cleaned"
    using assms by (rule groupSummaries_ai)
  from aiGroups_Some [OF assms] obtain lm raw parsed where
    lm: "languageModel = Some lm" "lm (groupPrompt summaries) = Returned raw"
      "parse (stripFences (rawText raw)) = Some parsed" and
    cp: "cleanParsed summaries parsed = Some cleaned"
    by blast
  from groups_relinked [OF cp] obtain g entries where
    g: "getProp parsed (js ''groups'') = Returned (Some g)" "objectEntries g = Some entries" and
    rel: "\<forall>(k, recs) \<in> set cleaned.
            \<exists>v. (k, JArr v) \<in> set entries \<and> list_all2 (relinkedFrom summaries) v recs"
    by blast
  have item: "(\<exists>s \<in> set summaries. r = Original s) \<or> itemTabId r = None"
    if "p \<in> set cleaned" "r \<in> set (snd p)" for p r
  proof (cases r)
    case (Original s)
    from that result have "(fst p, snd p) \<in> set (groupSummaries parse lower summaries languageModel)"
      by simp
    from this that(2) [unfolded Original] have "s \<in> set summaries"
      by (rule groupSummaries_originals)
    with Original show ?thesis by simp
  next
    case (Placeholder u t sm)
    then show ?thesis by simp
  qed
  have "\<forall>p \<in> set cleaned. \<forall>r \<in> set (snd p).
       (\<exists>s \<in> set summaries. r = Original s) \<or> itemTabId r = None"
  proof (intro ballI)
    fix p r
    assume "p \<in> set cleaned" "r \<in> set (snd p)"
    then show "(\<exists>s \<in> set summaries. r = Original s) \<or> itemTabId r = None"
      by (rule item)
  qed
  then have tabs: "\<forall>(k, recs) \<in> set cleaned. \<forall>r \<in> set recs.
       (\<exists>s \<in> set summaries. r = Original s) \<or> itemTabId r = None"
    by (simp add: case_prod_beta)
  from result lm g rel tabs show ?thesis by blast
qed

text \<open>
  The theorem at a fenced reply that names the example record by its title.
\<close>

theorem groupSummaries_relinks_witness:
  "aiGroups exampleParse [exampleRecord] (Some (replyModel relinkReply)) =
     Some [((js ''Reading''), [Original exampleRecord])] \<and>
   groupSummaries exampleParse asciiLower [exampleRecord] (Some (replyModel relinkReply)) =
     [((js ''Reading''), [Original exampleRecord])]"
  using aiGroups_relink groupSummaries_relinks [OF aiGroups_relink] by blast

text \<open>
  Claim C1 as stated fails: an item of the reply that matches no input record is
  kept, and its record has the tabId, url and title of no input record.
\<close>

theorem groupSummaries_keeps_unmatched:
  "groupSummaries exampleParse asciiLower [exampleRecord] (Some (replyModel ghostReply)) =
     [((js ''Misc''), [Placeholder (JStr (js ''https://ghost.example/'')) (JStr (js ''Ghost'')) (JStr [])])] \<and>
   itemTabId (Placeholder (JStr (js ''https://ghost.example/'')) (JStr (js ''Ghost'')) (JStr [])) \<noteq>
     Some (tabId exampleRecord) \<and>
   itemUrl (Placeholder (JStr (js ''https://ghost.example/'')) (JStr (js ''Ghost'')) (JStr [])) \<noteq>
     JStr (url exampleRecord) \<and>
   itemTitle (Placeholder (JStr (js ''https://ghost.example/'')) (JStr (js ''Ghost'')) (JStr [])) \<noteq>
     JStr (title exampleRecord)"
  by (simp add: groupSummaries_ai [OF aiGroups_ghost]) (simp add: exampleRecord_def)

text \<open>
  Claim C2, as amended. Whatever the summaries and whatever the capability does,
  \<^verbatim>\<open>groupSummaries\<close> returns either the heuristic grouping, where every key is one of the
  five categories, is not the empty string and maps to a non-empty list; or the cleaned
  grouping of the AI path, a mapping with at least one key and no key twice.
\<close>

theorem groupSummaries_keys:
  "(aiGroups parse summaries languageModel = None \<and>
    groupSummaries parse lower summaries languageModel =
      map (\<lambda>(k, v). (k, map Original v)) (heuristicGroups lower summaries) \<and>
    (\<forall>(k, v) \<in> set (groupSummaries parse lower summaries languageModel).
       k \<in> set categories \<and> k \<noteq> [] \<and> v \<noteq> [])) \<or>
   (aiGroups parse summaries languageModel = Some (groupSummaries parse lower summaries languageModel) \<and>
    groupSummaries parse lower summaries languageModel \<noteq> [] \<and>
    distinct (map fst (groupSummaries parse lower summaries languageModel)))"
proof (cases "aiGroups parse summaries languageModel")
  case None
  then have fb: "groupSummaries parse lower summaries languageModel =
      map (\<lambda>(k, v). (k, map Original v)) (heuristicGroups lower summaries)"
    by (rule groupSummaries_fallback)
  have "\<forall>(k, v) \<in> set (groupSummaries parse lower summaries languageModel).
       k \<in> set categories \<and> k \<noteq> [] \<and> v \<noteq> []"
    unfolding fb by (auto simp add: heuristicGroups_map categories_def)
  with None fb show ?thesis by simp
next
  case (Some cleaned)
  then have r: "groupSummaries parse lower summaries languageModel = cleaned"
    by (rule groupSummaries_ai)
  from aiGroups_Some [OF Some] obtain parsed where "cleanParsed summaries parsed = Some cleaned"
    by blast
  from cleanParsed_Some [OF this] obtain entries where
    "cleanEntries summaries entries [] = Returned cleaned" "cleaned \<noteq> []"
    by blast
  then have "cleaned \<noteq> [] \<and> distinct (map fst cleaned)"
    by (auto dest: cleanEntries_distinct)
  with Some r show ?thesis by simp
qed

text \<open>
  The theorem with no capability, on the example record.
\<close>

theorem groupSummaries_keys_witness:
  "groupSummaries exampleParse asciiLower [exampleRecord] None = [((js ''Research''), [Original exampleRecord])] \<and>
   aiGroups exampleParse [exampleRecord] None = None"
  using groupSummaries_keys [of exampleParse "[exampleRecord]" None asciiLower]
  by (simp add: heuristicGroups_exampleRecord aiGroups_def)

text \<open>
  Claim C2 as stated fails: a reply whose \<^verbatim>\<open>groups\<close> has the empty string as a key yields
  a grouping with that key.
\<close>

theorem groupSummaries_empty_key:
  "groupSummaries exampleParse asciiLower [exampleRecord] (Some (replyModel emptyKeyReply)) =
     [([], [Original exampleRecord])]"
  by (simp add: groupSummaries_ai [OF aiGroups_emptyKey])

text \<open>
  The AI path also keeps a group whose array is empty, which the heuristic path
  filters out.
\<close>

lemma groupSummaries_empty_group:
  "groupSummaries exampleParse asciiLower [exampleRecord] (Some (replyModel emptyGroupReply)) =
     [((js ''Research''), [])]"
  by (simp add: groupSummaries_ai [OF aiGroups_emptyGroup])



section \<open>Summaries, snapshots and sessions\<close>

lemma skipped_iff: "skipped t = falsyIdSkip t"
  by (auto simp add: skipped_def falsyIdSkip_def claimedSkip_def split: option.splits)

lemma collectSummaries_acc:
  "collectSummaries ex sm lm ts acc =
     acc @ map (summaryRecord ex sm lm) (filter (\<lambda>t. \<not> falsyIdSkip t) ts)"
  by (induction ts arbitrary: acc) (simp_all add: skipped_iff)

lemma digits_nonempty: "digits n \<noteq> []"
  by (subst digits.simps) simp

lemma numberToString_nonempty: "numberToString n \<noteq> []"
  by (simp add: numberToString_def digits_nonempty)



lemma exampleTab_record: "summaryRecord noScript None None exampleTab = exampleRecord"
  by (simp add: summaryRecord_def exampleTab_def exampleRecord_def summarizeTab_def
      summarizerAttempt_def promptAttempt_def flip: js_append)

lemma examplePlatform_capabilities:
  "tryCreateSummarizer (examplePlatform tabs now) = None \<and>
   tryCreateLanguageModel (examplePlatform tabs now) = None"
  by (simp add: tryCreateSummarizer_def tryCreateLanguageModel_def resolveAISummarizerAPI_def
      resolveAILanguageModelAPI_def tryCreate_def examplePlatform_def)

lemma processTabsAndStore_payload:
  "fst (processTabsAndStore pf st) =
     \<lparr>generatedAt = Some (Date_now pf),
      groups = groupSummaries (JSON_parse pf) (toLowerCase pf)
        (collectSummaries (executeScript pf) (tryCreateSummarizer pf) (tryCreateLanguageModel pf)
           (tabs_query pf) [])
        (tryCreateLanguageModel pf)\<rparr>"
  by (simp add: processTabsAndStore_def Let_def)

lemma processTabsAndStore_storage:
  "snd (processTabsAndStore pf st) = st\<lparr>latestGroups := Some (fst (processTabsAndStore pf st))\<rparr>"
  by (simp add: processTabsAndStore_def Let_def)

lemma collectSummaries_keptRecords:
  "collectSummaries (executeScript pf) (tryCreateSummarizer pf) (tryCreateLanguageModel pf)
     (tabs_query pf) [] = keptRecords pf"
  by (simp add: collectSummaries_acc keptRecords_def)

lemma kept_tab_id:
  "\<not> falsyIdSkip t \<Longrightarrow> tab_id t = Some (tabId (summaryRecord ex sm lm t))"
  by (cases "tab_id t") (auto simp add: falsyIdSkip_def claimedSkip_def summaryRecord_def)

lemma concat_map_Original:
  "concat (map snd (map (\<lambda>(k, v). (k, map Original v)) kvs)) = map Original (concat (map snd kvs))"
  by (induction kvs) auto

text \<open>
  Claim C9, as amended. \<^verbatim>\<open>processTabsAndStore\<close> returns and stores the snapshot whose
  groups are \<^verbatim>\<open>groupSummaries\<close> of the kept records: one summary record for each tab of
  \<^verbatim>\<open>chrome.tabs.query\<close>, in order and carrying the tab's id, except the tabs whose id is
  missing or 0, whose pendingUrl is \<^verbatim>\<open>chrome://newtab/\<close> or whose url starts with
  \<^verbatim>\<open>chrome://\<close>. When the heuristic grouping is used, the groups of the snapshot hold
  each kept record exactly once; in every case a record of the groups that is not a
  placeholder is the summary record of a tab that was not skipped. When no tab has the
  id 0, the kept tabs are all but the three kinds the claim names.
\<close>

theorem processTabsAndStore_skips:
  "fst (processTabsAndStore pf st) =
     \<lparr>generatedAt = Some (Date_now pf),
      groups = groupSummaries (JSON_parse pf) (toLowerCase pf) (keptRecords pf)
                 (tryCreateLanguageModel pf)\<rparr> \<and>
   list_all2
     (\<lambda>t s. tab_id t = Some (tabId s) \<and>
        s = summaryRecord (executeScript pf) (tryCreateSummarizer pf)
              (tryCreateLanguageModel pf) t)
     (filter (\<lambda>t. \<not> falsyIdSkip t) (tabs_query pf)) (keptRecords pf) \<and>
   latestGroups (snd (processTabsAndStore pf st)) = Some (fst (processTabsAndStore pf st)) \<and>
   (aiGroups (JSON_parse pf) (keptRecords pf) (tryCreateLanguageModel pf) = None \<longrightarrow>
      mset (concat (map snd (groups (fst (processTabsAndStore pf st))))) =
        mset (map Original (keptRecords pf))) \<and>
   (\<forall>(k, recs) \<in> set (groups (fst (processTabsAndStore pf st))). \<forall>s.
      Original s \<in> set recs \<longrightarrow>
      (\<exists>t \<in> set (tabs_query pf). \<not> falsyIdSkip t \<and> tab_id t = Some (tabId s) \<and>
         s = summaryRecord (executeScript pf) (tryCreateSummarizer pf)
               (tryCreateLanguageModel pf) t)) \<and>
   ((\<forall>t \<in> set (tabs_query pf). tab_id t \<noteq> Some 0) \<longrightarrow>
      keptRecords pf =
        map (summaryRecord (executeScript pf) (tryCreateSummarizer pf)
               (tryCreateLanguageModel pf))
          (filter (\<lambda>t. \<not> claimedSkip t) (tabs_query pf)))"
proof (intro conjI impI)
  show payload: "fst (processTabsAndStore pf st) =
     \<lparr>generatedAt = Some (Date_now pf),
      groups = groupSummaries (JSON_parse pf) (toLowerCase pf) (keptRecords pf)
                 (tryCreateLanguageModel pf)\<rparr>"
    by (simp add: processTabsAndStore_payload collectSummaries_keptRecords)
  let ?rec = "summaryRecord (executeScript pf) (tryCreateSummarizer pf) (tryCreateLanguageModel pf)"
  show "list_all2 (\<lambda>t s. tab_id t = Some (tabId s) \<and> s = ?rec t)
     (filter (\<lambda>t. \<not> falsyIdSkip t) (tabs_query pf)) (keptRecords pf)"
    by (simp add: keptRecords_def list_all2_map2 list_all2_same kept_tab_id)
  show "latestGroups (snd (processTabsAndStore pf st)) = Some (fst (processTabsAndStore pf st))"
    by (simp add: processTabsAndStore_storage)
  show "mset (concat (map snd (groups (fst (processTabsAndStore pf st))))) =
        mset (map Original (keptRecords pf))"
    if "aiGroups (JSON_parse pf) (keptRecords pf) (tryCreateLanguageModel pf) = None"
  proof -
    from that have "groups (fst (processTabsAndStore pf st)) =
        map (\<lambda>(k, v). (k, map Original v)) (heuristicGroups (toLowerCase pf) (keptRecords pf))"
      by (simp add: payload groupSummaries_fallback)
    then show ?thesis
      by (simp only: concat_map_Original mset_map mset_heuristicGroups)
  qed
  have kept: "\<exists>t \<in> set (tabs_query pf). \<not> falsyIdSkip t \<and> tab_id t = Some (tabId s) \<and> s = ?rec t"
    if "s \<in> set (keptRecords pf)" for s
  proof -
    from that obtain t where t: "t \<in> set (tabs_query pf)" "\<not> falsyIdSkip t" "s = ?rec t"
      by (auto simp add: keptRecords_def)
    from t(2) have "tab_id t = Some (tabId (?rec t))"
      by (rule kept_tab_id)
    with t show ?thesis by blast
  qed
  show "\<forall>(k, recs) \<in> set (groups (fst (processTabsAndStore pf st))). \<forall>s.
      Original s \<in> set recs \<longrightarrow>
      (\<exists>t \<in> set (tabs_query pf). \<not> falsyIdSkip t \<and> tab_id t = Some (tabId s) \<and> s = ?rec t)"
  proof (intro ballI, clarify)
    fix k recs s
    assume "(k, recs) \<in> set (groups (fst (processTabsAndStore pf st)))" "Original s \<in> set recs"
    then have "s \<in> set (keptRecords pf)"
      unfolding payload
      by (auto intro: groupSummaries_originals)
    then show "\<exists>t \<in> set (tabs_query pf). \<not> falsyIdSkip t \<and> tab_id t = Some (tabId s) \<and> s = ?rec t"
      by (rule kept)
  qed
  show "keptRecords pf = map ?rec (filter (\<lambda>t. \<not> claimedSkip t) (tabs_query pf))"
    if "\<forall>t \<in> set (tabs_query pf). tab_id t \<noteq> Some 0"
  proof -
    from that have "filter (\<lambda>t. \<not> falsyIdSkip t) (tabs_query pf) =
        filter (\<lambda>t. \<not> claimedSkip t) (tabs_query pf)"
      by (auto simp add: falsyIdSkip_def intro: filter_cong)
    then show ?thesis
      by (simp add: keptRecords_def)
  qed
qed

lemma example_skips:
  "falsyIdSkip settingsTab \<and> \<not> falsyIdSkip exampleTab \<and> falsyIdSkip zeroTab \<and>
   \<not> claimedSkip zeroTab"
  by (simp add: falsyIdSkip_def claimedSkip_def settingsTab_def zeroTab_def exampleTab_def
      startsWith_def js_def)

text \<open>
  The theorem on three tabs: a \<^verbatim>\<open>chrome://\<close> tab and a tab with id 0 are skipped, the
  third tab is the one record of the snapshot. Without the tab with id 0, the kept
  records are those of the tabs the claim does not exclude.
\<close>

theorem processTabsAndStore_skips_witness:
  "aiGroups exampleParse
     (keptRecords (examplePlatform [settingsTab, exampleTab, zeroTab] 1700000000000)) None = None \<and>
   keptRecords (examplePlatform [settingsTab, exampleTab, zeroTab] 1700000000000) =
     [exampleRecord] \<and>
   fst (processTabsAndStore (examplePlatform [settingsTab, exampleTab, zeroTab] 1700000000000)
     emptyStorage) =
     \<lparr>generatedAt = Some 1700000000000,
      groups = [(js ''Research'', [Original exampleRecord])]\<rparr> \<and>
   tab_id exampleTab = Some (tabId exampleRecord) \<and>
   tab_id settingsTab \<noteq> Some 0 \<and> tab_id exampleTab \<noteq> Some 0 \<and>
   keptRecords (examplePlatform [settingsTab, exampleTab] 1700000000000) = [exampleRecord]"
proof -
  let ?pf = "examplePlatform [settingsTab, exampleTab, zeroTab] 1700000000000"
  let ?pf' = "examplePlatform [settingsTab, exampleTab] 1700000000000"
  have p: "executeScript ?pf = noScript" "tabs_query ?pf = [settingsTab, exampleTab, zeroTab]"
    "JSON_parse ?pf = exampleParse" "toLowerCase ?pf = asciiLower"
    "Date_now ?pf = 1700000000000" "tryCreateSummarizer ?pf = None"
    "tryCreateLanguageModel ?pf = None"
    by (simp_all add: examplePlatform_capabilities) (simp_all add: examplePlatform_def)
  have p': "executeScript ?pf' = noScript" "tabs_query ?pf' = [settingsTab, exampleTab]"
    "tryCreateSummarizer ?pf' = None" "tryCreateLanguageModel ?pf' = None"
    by (simp_all add: examplePlatform_capabilities) (simp_all add: examplePlatform_def)
  have k: "keptRecords ?pf = [exampleRecord]"
    by (simp add: keptRecords_def p example_skips exampleTab_record)
  have g: "groupSummaries exampleParse asciiLower [exampleRecord] None =
      [(js ''Research'', [Original exampleRecord])]"
    by (simp add: groupSummaries_no_model heuristicGroups_exampleRecord)
  have a: "aiGroups exampleParse [exampleRecord] None = None"
    by (simp add: aiGroups_def)
  have i: "tab_id exampleTab = Some (tabId exampleRecord)"
    by (simp add: exampleTab_def exampleRecord_def)
  have z: "tab_id settingsTab \<noteq> Some 0" "tab_id exampleTab \<noteq> Some 0"
    by (simp_all add: settingsTab_def exampleTab_def)
  have c: "claimedSkip settingsTab" "\<not> claimedSkip exampleTab"
    using example_skips z by (simp_all add: falsyIdSkip_def)
  from z have "\<forall>t \<in> set (tabs_query ?pf'). tab_id t \<noteq> Some 0"
    by (simp add: p')
  with processTabsAndStore_skips [of ?pf' emptyStorage]
  have "keptRecords ?pf' =
      map (summaryRecord (executeScript ?pf') (tryCreateSummarizer ?pf')
             (tryCreateLanguageModel ?pf'))
        (filter (\<lambda>t. \<not> claimedSkip t) (tabs_query ?pf'))"
    by blast
  then have k': "keptRecords ?pf' = [exampleRecord]"
    by (simp add: p' c exampleTab_record)
  from processTabsAndStore_skips [of ?pf emptyStorage] a i z k'
  show ?thesis
    by (simp only: p k g simp_thms)
qed

text \<open>
  Claim C9 as stated fails: a tab with the id 0 has an id, no pending new-tab page and
  an \<^verbatim>\<open>https\<close> url, and contributes no summary record.
\<close>

theorem processTabsAndStore_skips_id_zero:
  "\<not> claimedSkip zeroTab \<and>
   collectSummaries noScript None None [zeroTab] [] = [] \<and>
   groups (fst (processTabsAndStore (examplePlatform [zeroTab] 1700000000000) emptyStorage)) = []"
proof -
  have "executeScript (examplePlatform [zeroTab] 1700000000000) = noScript"
    "tabs_query (examplePlatform [zeroTab] 1700000000000) = [zeroTab]"
    by (simp_all add: examplePlatform_def)
  moreover have "collectSummaries noScript None None [zeroTab] [] = []"
    by (simp add: collectSummaries_acc example_skips)
  ultimately show ?thesis
    by (simp only: processTabsAndStore_payload examplePlatform_capabilities
        groupSummaries_no_model example_skips)
       (simp add: heuristicGroups_def bucketEntries_def emptyBuckets_def)
qed

text \<open>
  Claim C5. After two runs of \<^verbatim>\<open>processTabsAndStore\<close> the stored \<^verbatim>\<open>latestGroups\<close> is the
  payload the second run returned, which is \<^verbatim>\<open>{generatedAt, groups}\<close> of the second run's
  clock, tabs and capabilities, and is the same whatever the storage held before (\<open>st'\<close>
  is any storage): nothing of the first run is left. The saved sessions are not
  touched.
\<close>

theorem processTabsAndStore_overwrites:
  "latestGroups (snd (processTabsAndStore pf2 (snd (processTabsAndStore pf1 st)))) =
     Some (fst (processTabsAndStore pf2 (snd (processTabsAndStore pf1 st)))) \<and>
   fst (processTabsAndStore pf2 (snd (processTabsAndStore pf1 st))) =
     \<lparr>generatedAt = Some (Date_now pf2),
      groups = groupSummaries (JSON_parse pf2) (toLowerCase pf2)
        (collectSummaries (executeScript pf2) (tryCreateSummarizer pf2)
           (tryCreateLanguageModel pf2) (tabs_query pf2) [])
        (tryCreateLanguageModel pf2)\<rparr> \<and>
   fst (processTabsAndStore pf2 (snd (processTabsAndStore pf1 st))) =
     fst (processTabsAndStore pf2 st') \<and>
   savedSessions (snd (processTabsAndStore pf2 (snd (processTabsAndStore pf1 st)))) =
     savedSessions st"
  by (simp add: processTabsAndStore_storage processTabsAndStore_payload)

lemma saveSession_session:
  "fst (saveSession pf n st) =
     \<lparr>generatedAt = generatedAt (getLatestGroups st), groups = groups (getLatestGroups st),
      id' = numberToString (Date_now pf),
      name = orString n ((js ''Session '') @ toLocaleString pf)\<rparr>"
  by (simp add: saveSession_def Let_def)

lemma saveSession_storage:
  "snd (saveSession pf n st) =
     st\<lparr>savedSessions :=
          Some ((case savedSessions st of Some l \<Rightarrow> l | None \<Rightarrow> []) @ [fst (saveSession pf n st)])\<rparr>"
  by (simp add: saveSession_def Let_def)

text \<open>
  Claim C6. \<^verbatim>\<open>saveSession\<close> stores the list it found (the empty list when the key was
  never set), unchanged and in order, followed by the one session it returns, and
  leaves \<^verbatim>\<open>latestGroups\<close> alone; two invocations store the list followed by the two
  sessions, two entries more.
\<close>

theorem saveSession_appends:
  "savedSessions (snd (saveSession pf n st)) =
     Some ((case savedSessions st of Some l \<Rightarrow> l | None \<Rightarrow> []) @ [fst (saveSession pf n st)]) \<and>
   latestGroups (snd (saveSession pf n st)) = latestGroups st \<and>
   savedSessions (snd (saveSession pf2 n2 (snd (saveSession pf n st)))) =
     Some ((case savedSessions st of Some l \<Rightarrow> l | None \<Rightarrow> []) @
           [fst (saveSession pf n st), fst (saveSession pf2 n2 (snd (saveSession pf n st)))]) \<and>
   length (case savedSessions (snd (saveSession pf2 n2 (snd (saveSession pf n st)))) of
             Some l \<Rightarrow> l | None \<Rightarrow> []) =
     length (case savedSessions st of Some l \<Rightarrow> l | None \<Rightarrow> []) + 2"
  by (simp add: saveSession_storage)

text \<open>
  Claim C7. When \<^verbatim>\<open>latestGroups\<close> was never stored, or holds the value the
  \<^verbatim>\<open>onInstalled\<close> listener stores, \<^verbatim>\<open>saveSession\<close> returns a session whose groups are the
  empty mapping and whose id is the decimal text of \<^verbatim>\<open>Date.now()\<close>, a string that is not
  empty, and the session is the last entry of the stored list.
\<close>

theorem saveSession_before_processing:
  assumes "latestGroups st = None \<or> latestGroups st = Some \<lparr>generatedAt = None, groups = []\<rparr>"
  shows "groups (fst (saveSession pf n st)) = [] \<and>
    generatedAt (fst (saveSession pf n st)) = None \<and>
    id' (fst (saveSession pf n st)) = numberToString (Date_now pf) \<and>
    id' (fst (saveSession pf n st)) \<noteq> [] \<and>
    savedSessions (snd (saveSession pf n st)) =
      Some ((case savedSessions st of Some l \<Rightarrow> l | None \<Rightarrow> []) @ [fst (saveSession pf n st)]) \<and>
    latestGroups (onInstalled st0) = Some \<lparr>generatedAt = None, groups = []\<rparr>"
proof -
  from assms have "getLatestGroups st = \<lparr>generatedAt = None, groups = []\<rparr>"
    by (auto simp add: getLatestGroups_def)
  then show ?thesis
    by (simp add: saveSession_session saveSession_storage numberToString_nonempty onInstalled_def)
qed

lemma example_id: "numberToString 1700000000000 = js ''1700000000000''"
  by (simp add: numberToString_def digits.simps js_def)

text \<open>
  The theorem right after installation.
\<close>

theorem saveSession_before_processing_witness:
  "latestGroups (onInstalled emptyStorage) = Some \<lparr>generatedAt = None, groups = []\<rparr> \<and>
   fst (saveSession (examplePlatform [] 1700000000000) None (onInstalled emptyStorage)) =
     \<lparr>generatedAt = None, groups = [], id' = (js ''1700000000000''),
      name = (js ''Session 11/3/2026, 9:32:00 AM'')\<rparr> \<and>
   savedSessions (snd (saveSession (examplePlatform [] 1700000000000) None
       (onInstalled emptyStorage))) =
     Some [\<lparr>generatedAt = None, groups = [], id' = (js ''1700000000000''),
            name = (js ''Session 11/3/2026, 9:32:00 AM'')\<rparr>]"
proof -
  have d: "latestGroups (onInstalled emptyStorage) = Some \<lparr>generatedAt = None, groups = []\<rparr>"
    by (simp add: onInstalled_def)
  have s: "savedSessions (onInstalled emptyStorage) = Some []"
    by (simp add: onInstalled_def)
  have p: "Date_now (examplePlatform [] 1700000000000) = 1700000000000"
    "toLocaleString (examplePlatform [] 1700000000000) = (js ''11/3/2026, 9:32:00 AM'')"
    by (simp_all add: examplePlatform_def)
  have n: "name (fst (saveSession (examplePlatform [] 1700000000000) None
      (onInstalled emptyStorage))) = (js ''Session 11/3/2026, 9:32:00 AM'')"
    by (simp add: saveSession_session p flip: js_append)
  from saveSession_before_processing
    [of "onInstalled emptyStorage" "examplePlatform [] 1700000000000" None emptyStorage] d s n
  show ?thesis
    by (simp add: p example_id)
qed

end
